theory Spec2Isabelle
  imports Main
begin

section \<open>Client-side GENA of npupnp: data model\<close>

text \<open>
  The return codes the client GENA code produces itself, and \<open>UPNP_E_OTHER\<close> for every
  other integer code handed up from a callee (URL parsing, the timer thread).
  \<open>GENA_SUCCESS\<close> and \<open>UPNP_E_SUCCESS\<close> are one code (0) in the source, which compares
  return values against either name.
\<close>

datatype upnp_code =
    UPNP_E_SUCCESS
  | GENA_E_BAD_HANDLE
  | GENA_E_BAD_SID
  | UPNP_E_SOCKET_CONNECT
  | UPNP_E_BAD_RESPONSE
  | UPNP_E_SUBSCRIBE_UNACCEPTED
  | UPNP_E_UNSUBSCRIBE_UNACCEPTED
  | UPNP_E_OTHER int

definition HTTP_OK :: int where "HTTP_OK = 200"
definition HTTP_BAD_REQUEST :: int where "HTTP_BAD_REQUEST = 400"
definition HTTP_PRECONDITION_FAILED :: int where "HTTP_PRECONDITION_FAILED = 412"

datatype Family = IPV4 | IPV6

record IPAddr =
  family :: Family
  straddr :: string

text \<open>Of \<open>uri_type\<close> only what \<open>gena_subscribe\<close> reads: the string \<open>uri_asurlstr\<close>
  yields and the address in \<open>hostport.IPaddress\<close>.\<close>

record uri_type =
  urlstr :: string
  IPaddress :: IPAddr

datatype CURLcode = CURLE_OK | CURLE_ERROR nat

text \<open>What is handed to \<open>curl_easy_perform\<close>: the custom request, the URL and the
  header list \<open>hlist\<close>, in the order of the \<open>curl_slist_append\<close> calls.\<close>

record curl_request =
  CUSTOMREQUEST :: string
  URL :: string
  HTTPHEADER :: "string list"

record ClientSubscription =
  renewEventId :: int
  SID :: string
  eventURL :: string

datatype Upnp_Handle_Type = HND_INVALID | HND_CLIENT | HND_DEVICE

record Handle_Info =
  HType :: Upnp_Handle_Type
  Callback :: nat
  Cookie :: nat
  ClientSubList :: "ClientSubscription list"

record Upnp_Event_Subscribe =
  Sid :: string
  ErrCode :: upnp_code
  PublisherUrl :: string
  TimeOut :: int

text \<open>The \<open>upnp_timeout\<close> owned by an \<open>AutoRenewSubscriptionJobWorker\<close>.\<close>

record upnp_timeout =
  handle :: int
  Event :: Upnp_Event_Subscribe

text \<open>An inbound HTTP transaction: the request headers, keyed by lower-cased name, and
  the request body.\<close>

record MHDTransaction =
  headers :: "string \<rightharpoonup> string"
  postdata :: string

text \<open>The calls the XML base parser makes into a derived parser while it reads a
  document.\<close>

datatype xml_event = StartElement string | CharacterData string | EndElement string

datatype Upnp_EventType =
    UPNP_EVENT_RECEIVED
  | UPNP_EVENT_AUTORENEWAL_FAILED
  | UPNP_EVENT_SUBSCRIPTION_EXPIRED

record Upnp_Event =
  Sid :: string
  EventKey :: int
  ChangedVariables :: "string \<rightharpoonup> string"

text \<open>A call of the user callback: the function pointer, the event type, the event
  structure passed, and the cookie.\<close>

datatype event_arg = Subscribe_arg Upnp_Event_Subscribe | Event_arg Upnp_Event

datatype upcall = Upcall nat Upnp_EventType event_arg nat

text \<open>
  The collaborators whose code is outside the client GENA file are parameters of the
  model: compile-time constants, URL parsing, interface lookup, the curl round trip, the
  parsing of the TIMEOUT response header, the content-type test, the tokenizer of the
  XML base parser, and the timer thread (whose state has type \<open>'t\<close>).
  \<open>timeout_header_value\<close> receives the current value of \<open>*timeout\<close> and returns its
  boolean result with the value it leaves there. \<open>TimerThread_schedule\<close> returns the
  return code, the event id it stores, and the new timer state. \<open>xml_tokens\<close> gives
  the calls the base parser makes for a document, in order, and whether it accepts the
  document.
\<close>

record 't env =
  CP_MINIMUM_SUBSCRIPTION_TIME :: int
  AUTO_RENEW_TIME :: int
  UPNP_INFINITE :: int
  NAME_SIZE :: nat
  LOCAL_PORT_V4 :: nat
  LOCAL_PORT_V6 :: nat
  get_sdk_client_info :: string
  http_FixStrUrl :: "string \<Rightarrow> upnp_code \<times> uri_type"
  interfaceForAddress :: "IPAddr \<Rightarrow> IPAddr option"
  curl_easy_perform :: "curl_request \<Rightarrow> CURLcode \<times> int \<times> (string \<rightharpoonup> string)"
  timeout_header_value :: "(string \<rightharpoonup> string) \<Rightarrow> int \<Rightarrow> bool \<times> int"
  TimerThread_schedule :: "'t \<Rightarrow> int \<Rightarrow> upnp_timeout \<Rightarrow> upnp_code \<times> int \<times> 't"
  TimerThread_remove :: "'t \<Rightarrow> int \<Rightarrow> 't"
  has_xml_content_type :: "MHDTransaction \<Rightarrow> bool"
  xml_tokens :: "string \<Rightarrow> xml_event list \<times> bool"

section \<open>Decimal output of integers\<close>

text \<open>What \<open>operator<<\<close> of an output stream writes for an \<open>int\<close> or a port number.\<close>

fun dec_of_nat :: "nat \<Rightarrow> string" where
  "dec_of_nat n =
     (if n < 10 then [''0123456789'' ! n]
      else dec_of_nat (n div 10) @ [''0123456789'' ! (n mod 10)])"

definition dec_of_int :: "int \<Rightarrow> string" where
  "dec_of_int i = (if i < 0 then CHR ''-'' # dec_of_nat (nat (- i)) else dec_of_nat (nat i))"

section \<open>The HTTP transport adapter\<close>

definition myCallbackUrl :: "'t env \<Rightarrow> IPAddr \<Rightarrow> string" where
  "myCallbackUrl env netaddr =
     ''http://''
     @ (if family netaddr = IPV6 then ''['' else [])
     @ straddr netaddr
     @ (if family netaddr = IPV6 then '']'' else [])
     @ '':''
     @ dec_of_nat (if family netaddr = IPV6 then LOCAL_PORT_V6 env else LOCAL_PORT_V4 env)"

text \<open>
  The result of \<open>gena_subscribe\<close>: the return code, the values left in \<open>*timeout\<close>
  and \<open>*sid\<close>, and the requests it performed (none, or one).
\<close>

record subscribe_result =
  code :: upnp_code
  timeout_out :: int
  sid_out :: string
  performed :: "curl_request list"

text \<open>The request timeout as a string (\<open>timostr\<close> in \<open>gena_subscribe\<close>).\<close>

definition timostr :: "'t env \<Rightarrow> int \<Rightarrow> string" where
  "timostr env t =
     (if t < 0 then ''infinite''
      else if t < CP_MINIMUM_SUBSCRIPTION_TIME env
        then dec_of_int (CP_MINIMUM_SUBSCRIPTION_TIME env)
      else dec_of_int t)"

text \<open>The header list \<open>hdls.hlist\<close> that \<open>gena_subscribe\<close> builds.\<close>

definition subscribe_hlist :: "'t env \<Rightarrow> IPAddr \<Rightarrow> string \<Rightarrow> int \<Rightarrow> string list" where
  "subscribe_hlist env myaddr renewal_sid t =
     (if renewal_sid = [] then
        [''CALLBACK: <'' @ myCallbackUrl env myaddr @ ''/>'', ''NT: upnp:event'']
      else [''SID: '' @ renewal_sid])
     @ [''TIMEOUT: Second-'' @ timostr env t,
        ''USER-AGENT: '' @ get_sdk_client_info env]"

text \<open>The part of \<open>gena_subscribe\<close> from \<open>curl_easy_perform\<close> to the end: the
  request \<open>req\<close> is performed and the answer examined.\<close>

definition subscribe_perform :: "'t env \<Rightarrow> int \<Rightarrow> curl_request \<Rightarrow> subscribe_result" where
  "subscribe_perform env t req =
     (case curl_easy_perform env req of (curlcode, http_status, http_headers) \<Rightarrow>
        if curlcode \<noteq> CURLE_OK then
          \<lparr>code = UPNP_E_SOCKET_CONNECT, timeout_out = t, sid_out = [], performed = [req]\<rparr>
        else if http_status \<noteq> HTTP_OK then
          \<lparr>code = UPNP_E_SUBSCRIBE_UNACCEPTED, timeout_out = t, sid_out = [],
           performed = [req]\<rparr>
        else
          (case http_headers ''sid'' of
             None \<Rightarrow>
               \<lparr>code = UPNP_E_BAD_RESPONSE, timeout_out = t, sid_out = [], performed = [req]\<rparr>
           | Some itsid \<Rightarrow>
               (case http_headers ''timeout'' of
                  None \<Rightarrow>
                    \<lparr>code = UPNP_E_BAD_RESPONSE, timeout_out = t, sid_out = [],
                     performed = [req]\<rparr>
                | Some ittimeout \<Rightarrow>
                    (case timeout_header_value env http_headers t of (ok, t') \<Rightarrow>
                       if \<not> ok then
                         \<lparr>code = UPNP_E_BAD_RESPONSE, timeout_out = t', sid_out = [],
                          performed = [req]\<rparr>
                       else
                         \<lparr>code = UPNP_E_SUCCESS, timeout_out = t', sid_out = itsid,
                          performed = [req]\<rparr>))))"

text \<open>
  \<open>gena_subscribe\<close>. The \<open>timeout\<close> pointer is an option: \<open>None\<close> is the null
  pointer, for which the source substitutes a local holding
  \<open>CP_MINIMUM_SUBSCRIPTION_TIME\<close>.
\<close>

definition gena_subscribe ::
  "'t env \<Rightarrow> string \<Rightarrow> int option \<Rightarrow> string \<Rightarrow> subscribe_result" where
  "gena_subscribe env url timeout renewal_sid =
     (let local_timeout = CP_MINIMUM_SUBSCRIPTION_TIME env;
          t = (case timeout of None \<Rightarrow> local_timeout | Some v \<Rightarrow> v)
      in case http_FixStrUrl env url of (return_code, dest_url) \<Rightarrow>
         if return_code \<noteq> UPNP_E_SUCCESS then
           \<lparr>code = return_code, timeout_out = t, sid_out = [], performed = []\<rparr>
         else
           (case interfaceForAddress env (IPaddress dest_url) of
              None \<Rightarrow>
                \<lparr>code = UPNP_E_SOCKET_CONNECT, timeout_out = t, sid_out = [], performed = []\<rparr>
            | Some myaddr \<Rightarrow>
                subscribe_perform env t
                  \<lparr>CUSTOMREQUEST = ''SUBSCRIBE'', URL = urlstr dest_url,
                   HTTPHEADER = subscribe_hlist env myaddr renewal_sid t\<rparr>))"



text \<open>\<open>gena_unsubscribe\<close>: the return code and the requests performed.\<close>

definition gena_unsubscribe ::
  "'t env \<Rightarrow> string \<Rightarrow> string \<Rightarrow> upnp_code \<times> curl_request list" where
  "gena_unsubscribe env url sid =
     (case http_FixStrUrl env url of (return_code, dest_url) \<Rightarrow>
        if return_code \<noteq> UPNP_E_SUCCESS then (return_code, [])
        else
          (let req = \<lparr>CUSTOMREQUEST = ''UNSUBSCRIBE'', URL = urlstr dest_url,
                      HTTPHEADER = [''SID: '' @ sid,
                                    ''USER-AGENT: '' @ get_sdk_client_info env]\<rparr>
           in case curl_easy_perform env req of (curlcode, http_status, http_headers) \<Rightarrow>
                if curlcode \<noteq> CURLE_OK then (UPNP_E_SOCKET_CONNECT, [req])
                else if http_status \<noteq> HTTP_OK then (UPNP_E_UNSUBSCRIBE_UNACCEPTED, [req])
                else (return_code, [req])))"

section \<open>The handle table, the subscription list and the timer thread\<close>

text \<open>The shared state: the handle table (indexed by handle) and the timer thread.\<close>

record 't gena_state =
  HandleTable :: "Handle_Info option list"
  gTimerThread :: 't

text \<open>
  Modelled from the spec: \<open>GetHandleInfo\<close>, of which only calls are in the source. The
  handle table maps a small integer handle to its record; the callers here only ask
  whether the result is \<open>HND_CLIENT\<close>. The model yields the record when the C function
  returns \<open>HND_CLIENT\<close> and \<open>None\<close> when it returns anything else (handle out of
  range, empty slot, or a handle of another type).
\<close>

definition GetHandleInfo :: "Handle_Info option list \<Rightarrow> int \<Rightarrow> Handle_Info option" where
  "GetHandleInfo tbl h =
     (if h < 1 \<or> int (length tbl) \<le> h then None
      else case tbl ! nat h of
             None \<Rightarrow> None
           | Some hi \<Rightarrow> if HType hi = HND_CLIENT then Some hi else None)"

text \<open>
  Modelled from the spec: \<open>GetClientHandleInfo\<close>, which locates the single active
  client handle; with several clients registered the model takes the lowest handle.
\<close>

definition GetClientHandleInfo :: "Handle_Info option list \<Rightarrow> (int \<times> Handle_Info) option" where
  "GetClientHandleInfo tbl =
     (case List.find (\<lambda>h. GetHandleInfo tbl h \<noteq> None) (map int [1..<length tbl]) of
        None \<Rightarrow> None
      | Some h \<Rightarrow> map_option (Pair h) (GetHandleInfo tbl h))"

text \<open>Writing the subscription list of a handle back through \<open>handle_info\<close>.\<close>

definition put_ClientSubList ::
  "'t gena_state \<Rightarrow> int \<Rightarrow> Handle_Info \<Rightarrow> ClientSubscription list \<Rightarrow> 't gena_state" where
  "put_ClientSubList s h handle_info subs =
     s\<lparr>HandleTable := (HandleTable s)[nat h := Some (handle_info\<lparr>ClientSubList := subs\<rparr>)]\<rparr>"

text \<open>\<open>std::find_if\<close> on a list: the position of the first element satisfying the
  predicate, \<open>None\<close> for the end iterator. \<open>remove_if\<close> erases every such element.\<close>

fun find_if :: "('a \<Rightarrow> bool) \<Rightarrow> 'a list \<Rightarrow> nat option" where
  "find_if P [] = None"
| "find_if P (x # xs) = (if P x then Some 0 else map_option Suc (find_if P xs))"

definition remove_if :: "('a \<Rightarrow> bool) \<Rightarrow> 'a list \<Rightarrow> 'a list" where
  "remove_if P xs = filter (\<lambda>e. \<not> P e) xs"

text \<open>The predicate of the searches and removals: \<open>e.SID == sid\<close>.\<close>

definition has_SID :: "string \<Rightarrow> ClientSubscription \<Rightarrow> bool" where
  "has_SID sid e = (SID e = sid)"

text \<open>\<open>clientCancelRenew\<close>: the subscription pointed to (\<open>None\<close> for the null
  pointer) and the timer thread, both as left by the call.\<close>

fun clientCancelRenew ::
  "'t env \<Rightarrow> 't \<Rightarrow> ClientSubscription option \<Rightarrow> ClientSubscription option \<times> 't" where
  "clientCancelRenew env tt None = (None, tt)"
| "clientCancelRenew env tt (Some sub) =
     (Some (sub\<lparr>renewEventId := - 1, SID := [], eventURL := []\<rparr>),
      if renewEventId sub \<noteq> - 1 then TimerThread_remove env tt (renewEventId sub) else tt)"

section \<open>The renewal scheduler\<close>

text \<open>
  \<open>ScheduleGenaAutoRenew\<close>: the return code, the subscription \<open>*sub\<close> and the timer
  thread as left by the call. \<open>upnp_strlcpy\<close> keeps at most \<open>NAME_SIZE - 1\<close>
  characters of the event URL. The C \<open>int\<close>s are unbounded integers here: the only
  arithmetic on them, \<open>TimeOut - AUTO_RENEW_TIME\<close>, leaves the range of \<open>int\<close> only
  for a timeout within \<open>AUTO_RENEW_TIME\<close> of its lower end, and the delay it
  computes enters no statement below.
\<close>

definition ScheduleGenaAutoRenew ::
  "'t env \<Rightarrow> 't \<Rightarrow> int \<Rightarrow> int \<Rightarrow> ClientSubscription \<Rightarrow> upnp_code \<times> ClientSubscription \<times> 't" where
  "ScheduleGenaAutoRenew env tt client_handle TimeOut_in sub =
     (if TimeOut_in = UPNP_INFINITE env then (UPNP_E_SUCCESS, sub, tt)
      else
        (let RenewEventStruct =
               \<lparr>Upnp_Event_Subscribe.Sid = SID sub, ErrCode = UPNP_E_SUCCESS,
                PublisherUrl = take (NAME_SIZE env - 1) (eventURL sub), TimeOut = TimeOut_in\<rparr>;
             RenewEvent = \<lparr>handle = client_handle, Event = RenewEventStruct\<rparr>
         in case TimerThread_schedule env tt (TimeOut_in - AUTO_RENEW_TIME env) RenewEvent of
              (return_code, eventId, tt') \<Rightarrow>
                if return_code \<noteq> UPNP_E_SUCCESS then (return_code, sub, tt')
                else (UPNP_E_SUCCESS, sub\<lparr>renewEventId := eventId\<rparr>, tt')))"

section \<open>The subscription manager\<close>

text \<open>
  The manager functions release the handle lock around the HTTP round trip. What other
  threads do to the shared state while the lock is released is the parameter \<open>other\<close>:
  the state found when the lock is taken again is \<open>other\<close> applied to the state left
  when it was released (the identity when no other thread runs).

  A result holds the return code, the shared state at return, the value left in
  \<open>*TimeOut\<close>, and the requests performed; for \<open>genaSubscribe\<close> also \<open>*out_sid\<close>.
\<close>

record 't api_result =
  ret :: upnp_code
  st :: "'t gena_state"
  TimeOut_out :: int
  reqs :: "curl_request list"

record 't subscribe_api_result = "'t api_result" +
  out_sid :: string

text \<open>The state \<open>genaUnSubscribe\<close> leaves to the other threads before it takes the
  handle lock again: the renewal timer of the copied subscription is cancelled.\<close>

definition genaUnSubscribe_unlocked ::
  "'t env \<Rightarrow> 't gena_state \<Rightarrow> ClientSubscription \<Rightarrow> 't gena_state" where
  "genaUnSubscribe_unlocked env s sub_copy =
     s\<lparr>gTimerThread := snd (clientCancelRenew env (gTimerThread s) (Some sub_copy))\<rparr>"

text \<open>\<open>genaUnSubscribe\<close>: return code, state at return, requests performed.\<close>

definition genaUnSubscribe ::
  "'t env \<Rightarrow> ('t gena_state \<Rightarrow> 't gena_state) \<Rightarrow> 't gena_state \<Rightarrow> int \<Rightarrow> string
   \<Rightarrow> upnp_code \<times> 't gena_state \<times> curl_request list" where
  "genaUnSubscribe env other s client_handle in_sid =
     (case GetHandleInfo (HandleTable s) client_handle of
        None \<Rightarrow> (GENA_E_BAD_HANDLE, s, [])
      | Some handle_info \<Rightarrow>
          (case find_if (has_SID in_sid) (ClientSubList handle_info) of
             None \<Rightarrow> (GENA_E_BAD_SID, s, [])
           | Some i \<Rightarrow>
               (let sub_copy = ClientSubList handle_info ! i;
                    sent = snd (gena_unsubscribe env (eventURL sub_copy) (SID sub_copy));
                    s1 = other (genaUnSubscribe_unlocked env s sub_copy)
                in case GetHandleInfo (HandleTable s1) client_handle of
                     None \<Rightarrow> (GENA_E_BAD_HANDLE, s1, sent)
                   | Some handle_info \<Rightarrow>
                       (UPNP_E_SUCCESS,
                        put_ClientSubList s1 client_handle handle_info
                          (remove_if (has_SID in_sid) (ClientSubList handle_info)),
                        sent))))"

text \<open>\<open>genaSubscribe\<close> from the second \<open>HandleLock()\<close> on: \<open>s1\<close> is the state found
  there and \<open>r\<close> what \<open>gena_subscribe\<close> returned.\<close>

definition genaSubscribe_locked ::
  "'t env \<Rightarrow> 't gena_state \<Rightarrow> int \<Rightarrow> string \<Rightarrow> subscribe_result \<Rightarrow> 't subscribe_api_result" where
  "genaSubscribe_locked env s1 client_handle PublisherURL r =
     (if code r \<noteq> UPNP_E_SUCCESS then
        \<lparr>ret = code r, st = s1, TimeOut_out = timeout_out r, reqs = performed r, out_sid = []\<rparr>
      else
        (case GetHandleInfo (HandleTable s1) client_handle of
           None \<Rightarrow>
             \<lparr>ret = GENA_E_BAD_HANDLE, st = s1, TimeOut_out = timeout_out r,
              reqs = performed r, out_sid = []\<rparr>
         | Some handle_info \<Rightarrow>
             (let newSubscription =
                    \<lparr>renewEventId = - 1, SID = sid_out r, eventURL = PublisherURL\<rparr>
              in case ScheduleGenaAutoRenew env (gTimerThread s1) client_handle (timeout_out r)
                        newSubscription of
                   (return_code, front, tt) \<Rightarrow>
                     \<lparr>ret = return_code,
                      st = put_ClientSubList (s1\<lparr>gTimerThread := tt\<rparr>) client_handle handle_info
                             (front # ClientSubList handle_info),
                      TimeOut_out = timeout_out r, reqs = performed r,
                      out_sid = sid_out r\<rparr>)))"

text \<open>\<open>genaSubscribe\<close>; \<open>TimeOut_in\<close> is the value \<open>*TimeOut\<close> holds at the call.\<close>

definition genaSubscribe ::
  "'t env \<Rightarrow> ('t gena_state \<Rightarrow> 't gena_state) \<Rightarrow> 't gena_state \<Rightarrow> int \<Rightarrow> string \<Rightarrow> int
   \<Rightarrow> 't subscribe_api_result" where
  "genaSubscribe env other s client_handle PublisherURL TimeOut_in =
     (case GetHandleInfo (HandleTable s) client_handle of
        None \<Rightarrow>
          \<lparr>ret = GENA_E_BAD_HANDLE, st = s, TimeOut_out = TimeOut_in, reqs = [], out_sid = []\<rparr>
      | Some handle_info \<Rightarrow>
          genaSubscribe_locked env (other s) client_handle PublisherURL
            (gena_subscribe env PublisherURL (Some TimeOut_in) []))"

text \<open>\<open>genaRenewSubscription\<close> from the second \<open>HandleLock()\<close> on: \<open>s2\<close> is the state
  found there, \<open>sub_copy\<close> the copy taken before the round trip and \<open>r\<close> what
  \<open>gena_subscribe\<close> returned.\<close>

definition genaRenewSubscription_locked ::
  "'t env \<Rightarrow> 't gena_state \<Rightarrow> int \<Rightarrow> string \<Rightarrow> ClientSubscription \<Rightarrow> subscribe_result
   \<Rightarrow> 't api_result" where
  "genaRenewSubscription_locked env s2 client_handle in_sid sub_copy r =
     (case GetHandleInfo (HandleTable s2) client_handle of
        None \<Rightarrow>
          \<lparr>ret = GENA_E_BAD_HANDLE, st = s2, TimeOut_out = timeout_out r, reqs = performed r\<rparr>
      | Some handle_info \<Rightarrow>
          if code r \<noteq> UPNP_E_SUCCESS then
            \<lparr>ret = code r,
             st = put_ClientSubList
                    (s2\<lparr>gTimerThread :=
                          snd (clientCancelRenew env (gTimerThread s2) (Some sub_copy))\<rparr>)
                    client_handle handle_info
                    (remove_if (has_SID in_sid) (ClientSubList handle_info)),
             TimeOut_out = timeout_out r, reqs = performed r\<rparr>
          else
            (case find_if (has_SID in_sid) (ClientSubList handle_info) of
               None \<Rightarrow>
                 \<lparr>ret = GENA_E_BAD_SID,
                  st = s2\<lparr>gTimerThread :=
                            snd (clientCancelRenew env (gTimerThread s2) (Some sub_copy))\<rparr>,
                  TimeOut_out = timeout_out r, reqs = performed r\<rparr>
             | Some i \<Rightarrow>
                 (case ScheduleGenaAutoRenew env (gTimerThread s2) client_handle (timeout_out r)
                         ((ClientSubList handle_info ! i)\<lparr>SID := sid_out r\<rparr>) of
                    (return_code, sub, tt) \<Rightarrow>
                      \<lparr>ret = return_code,
                       st = put_ClientSubList
                              (s2\<lparr>gTimerThread :=
                                    snd (clientCancelRenew env tt (Some sub_copy))\<rparr>)
                              client_handle handle_info
                              (if return_code \<noteq> UPNP_E_SUCCESS then
                                 remove_if (has_SID (SID sub))
                                   ((ClientSubList handle_info)[i := sub])
                               else (ClientSubList handle_info)[i := sub]),
                       TimeOut_out = timeout_out r, reqs = performed r\<rparr>)))"

text \<open>The state \<open>genaRenewSubscription\<close> leaves at its first \<open>HandleUnlock()\<close>,
  having found the subscription at position \<open>i\<close>: the old timer event is removed
  and \<open>renewEventId\<close> reset in the list.\<close>

definition genaRenewSubscription_unlocked ::
  "'t env \<Rightarrow> 't gena_state \<Rightarrow> int \<Rightarrow> Handle_Info \<Rightarrow> nat \<Rightarrow> 't gena_state" where
  "genaRenewSubscription_unlocked env s client_handle handle_info i =
     (let sub = ClientSubList handle_info ! i;
          tt = TimerThread_remove env (gTimerThread s) (renewEventId sub)
      in put_ClientSubList (s\<lparr>gTimerThread := tt\<rparr>) client_handle handle_info
           ((ClientSubList handle_info)[i := sub\<lparr>renewEventId := - 1\<rparr>]))"

text \<open>\<open>genaRenewSubscription\<close>; \<open>TimeOut_in\<close> is the value \<open>*TimeOut\<close> holds at the
  call.\<close>

definition genaRenewSubscription ::
  "'t env \<Rightarrow> ('t gena_state \<Rightarrow> 't gena_state) \<Rightarrow> 't gena_state \<Rightarrow> int \<Rightarrow> string \<Rightarrow> int
   \<Rightarrow> 't api_result" where
  "genaRenewSubscription env other s client_handle in_sid TimeOut_in =
     (case GetHandleInfo (HandleTable s) client_handle of
        None \<Rightarrow> \<lparr>ret = GENA_E_BAD_HANDLE, st = s, TimeOut_out = TimeOut_in, reqs = []\<rparr>
      | Some handle_info \<Rightarrow>
          (case find_if (has_SID in_sid) (ClientSubList handle_info) of
             None \<Rightarrow> \<lparr>ret = GENA_E_BAD_SID, st = s, TimeOut_out = TimeOut_in, reqs = []\<rparr>
           | Some i \<Rightarrow>
               (let sub_copy = (ClientSubList handle_info ! i)\<lparr>renewEventId := - 1\<rparr>;
                    s1 = genaRenewSubscription_unlocked env s client_handle handle_info i
                in genaRenewSubscription_locked env (other s1) client_handle in_sid sub_copy
                     (gena_subscribe env (eventURL sub_copy) (Some TimeOut_in) (SID sub_copy)))))"


section \<open>The renewal timer job\<close>

text \<open>The last part of \<open>AutoRenewSubscriptionJobWorker::work\<close>, entered when
  \<open>send_callback\<close> is set: the callback calls made, with \<open>s\<close> the state found at
  \<open>HandleReadLock()\<close>.\<close>

definition work_send_callback ::
  "'t gena_state \<Rightarrow> int \<Rightarrow> Upnp_EventType \<Rightarrow> Upnp_Event_Subscribe \<Rightarrow> upcall list" where
  "work_send_callback s client_handle eventType sub_struct =
     (case GetHandleInfo (HandleTable s) client_handle of
        None \<Rightarrow> []
      | Some handle_info \<Rightarrow>
          [Upcall (Callback handle_info) eventType (Subscribe_arg sub_struct)
             (Cookie handle_info)])"

text \<open>
  \<open>AutoRenewSubscriptionJobWorker::work\<close> on the job's \<open>m_event\<close>: the callback calls
  made and the state at return. \<open>other\<close> acts during the round trip inside
  \<open>genaRenewSubscription\<close>, \<open>other'\<close> between its return and \<open>HandleReadLock()\<close>.
\<close>

definition work ::
  "'t env \<Rightarrow> ('t gena_state \<Rightarrow> 't gena_state) \<Rightarrow> ('t gena_state \<Rightarrow> 't gena_state)
   \<Rightarrow> 't gena_state \<Rightarrow> upnp_timeout \<Rightarrow> upcall list \<times> 't gena_state" where
  "work env other other' s event =
     (let sub_struct = Event event
      in if AUTO_RENEW_TIME env = 0 then
           (work_send_callback s (handle event) UPNP_EVENT_SUBSCRIPTION_EXPIRED
              (sub_struct\<lparr>ErrCode := UPNP_E_SUCCESS\<rparr>), s)
         else
           (let r = genaRenewSubscription env other s (handle event)
                      (Upnp_Event_Subscribe.Sid sub_struct) (TimeOut sub_struct);
                errCode = ret r
            in if errCode \<noteq> UPNP_E_SUCCESS \<and> errCode \<noteq> GENA_E_BAD_SID
                  \<and> errCode \<noteq> GENA_E_BAD_HANDLE then
                 (work_send_callback (other' (st r)) (handle event)
                    UPNP_EVENT_AUTORENEWAL_FAILED
                    (sub_struct\<lparr>ErrCode := errCode, TimeOut := TimeOut_out r\<rparr>),
                  other' (st r))
               else ([], st r)))"

section \<open>The property-set parser\<close>

text \<open>
  Modelled from the header comment of \<open>trimstring\<close>, whose body is not in the source:
  the characters of \<open>ws\<close> are removed at the beginning and at the end of the string.
\<close>

definition trimstring :: "string \<Rightarrow> string \<Rightarrow> string" where
  "trimstring s ws =
     dropWhile (\<lambda>c. c \<in> set ws) (rev (dropWhile (\<lambda>c. c \<in> set ws) (rev s)))"

definition tolower_ascii :: "char \<Rightarrow> char" where
  "tolower_ascii c =
     (if 65 \<le> (of_char c :: nat) \<and> (of_char c :: nat) \<le> 90
      then char_of ((of_char c :: nat) + 32) else c)"

text \<open>The local part of an element name: what follows the first colon, if any.\<close>

definition local_name :: "string \<Rightarrow> string" where
  "local_name nm =
     (if CHR '':'' \<in> set nm then tl (dropWhile (\<lambda>c. c \<noteq> CHR '':'') nm) else nm)"

text \<open>
  Modelled from the spec: \<open>dom_cmp_name\<close>, of which only the call is in the source. It
  compares an element name with a reference name, ignoring the namespace prefix of the
  element name and the case of letters; the result is 0 when they are equal (any
  non-zero result is rendered as 1, the caller only tests for 0).
\<close>

definition dom_cmp_name :: "string \<Rightarrow> string \<Rightarrow> int" where
  "dom_cmp_name domname ref =
     (if map tolower_ascii (local_name domname) = map tolower_ascii ref then 0 else 1)"

text \<open>The members of the parser object: the path \<open>m_path\<close> of open elements kept by
  the base parser (outermost first, names only), and the two members of
  \<open>UPnPPropertysetParser\<close>.\<close>

record parser_state =
  m_path :: "string list"
  m_chardata :: string
  propdata :: "string \<rightharpoonup> string"

text \<open>\<open>UPnPPropertysetParser::EndElement\<close>. With an empty path the source indexes
  \<open>m_path\<close> out of range; the model has \<open>None\<close> there.\<close>

definition UPnPPropertysetParser_EndElement ::
  "parser_state \<Rightarrow> string \<Rightarrow> parser_state option" where
  "UPnPPropertysetParser_EndElement ps name =
     (if m_path ps = [] then None
      else
        (let parentname =
               (if length (m_path ps) = 1 then ''root''
                else m_path ps ! (length (m_path ps) - 2));
             chardata = trimstring (m_chardata ps) [CHR '' '', CHR 0x09, CHR 0x0A, CHR 0x0D]
         in Some (ps\<lparr>propdata :=
                        (if dom_cmp_name parentname ''property'' = 0
                         then (propdata ps)(name \<mapsto> chardata) else propdata ps),
                      m_chardata := []\<rparr>)))"

text \<open>\<open>UPnPPropertysetParser::CharacterData\<close>; the string is the \<open>len\<close> characters
  at \<open>s\<close>.\<close>

definition UPnPPropertysetParser_CharacterData :: "parser_state \<Rightarrow> string \<Rightarrow> parser_state" where
  "UPnPPropertysetParser_CharacterData ps s =
     (case s of
        [] \<Rightarrow> ps
      | c # _ \<Rightarrow> if c = CHR 0x00 then ps else ps\<lparr>m_chardata := m_chardata ps @ s\<rparr>)"

text \<open>
  The base parser at work, as \<open>EndElement\<close> relies on it: an element is appended to
  \<open>m_path\<close> when it opens, \<open>EndElement\<close> is called while the closing element is
  still the last of the path, and the element is dropped from the path afterwards.
  Element names are passed on as the base parser found them.
\<close>

fun dispatch :: "parser_state \<Rightarrow> xml_event list \<Rightarrow> parser_state option" where
  "dispatch ps [] = Some ps"
| "dispatch ps (StartElement nm # evs) = dispatch (ps\<lparr>m_path := m_path ps @ [nm]\<rparr>) evs"
| "dispatch ps (CharacterData s # evs) = dispatch (UPnPPropertysetParser_CharacterData ps s) evs"
| "dispatch ps (EndElement nm # evs) =
     (case UPnPPropertysetParser_EndElement ps nm of
        None \<Rightarrow> None
      | Some ps' \<Rightarrow> dispatch (ps'\<lparr>m_path := butlast (m_path ps')\<rparr>) evs)"

text \<open>The parser run on the calls \<open>evs\<close>, starting with the empty map \<open>propd\<close>.\<close>

definition parse_events :: "xml_event list \<Rightarrow> (string \<rightharpoonup> string) option" where
  "parse_events evs =
     map_option propdata (dispatch \<lparr>m_path = [], m_chardata = [], propdata = Map.empty\<rparr> evs)"

text \<open>\<open>parser.Parse()\<close> on a document: the map filled when the result is true,
  \<open>None\<close> when it is false.\<close>

definition Parse :: "'t env \<Rightarrow> string \<Rightarrow> (string \<rightharpoonup> string) option" where
  "Parse env input =
     (case xml_tokens env input of (evs, ok) \<Rightarrow> if ok then parse_events evs else None)"

subsection \<open>The extraction rule, stated on the sequence of parser calls\<close>

text \<open>
  What the specification says the parser extracts, written on the sequence of calls
  without the parser's members. The elements open after a sequence of calls, outermost
  first:
\<close>

definition open_step :: "string list \<Rightarrow> xml_event \<Rightarrow> string list" where
  "open_step path ev =
     (case ev of
        StartElement nm \<Rightarrow> path @ [nm]
      | CharacterData s \<Rightarrow> path
      | EndElement nm \<Rightarrow> butlast path)"

definition open_elements :: "xml_event list \<Rightarrow> string list" where
  "open_elements evs = foldl open_step [] evs"

text \<open>The element enclosing the innermost open element, if there is one.\<close>

definition enclosing :: "string list \<Rightarrow> string option" where
  "enclosing path = (if length path < 2 then None else Some (path ! (length path - 2)))"

text \<open>An element name whose local part is \<open>property\<close>, whatever the case of its
  letters.\<close>

definition is_property :: "string \<Rightarrow> bool" where
  "is_property nm = (map tolower_ascii (local_name nm) = ''property'')"

text \<open>The characters a call contributes to the character data (a chunk starting with a
  NUL character contributes nothing), and the character data reported since the last
  end tag.\<close>

definition is_EndElement :: "xml_event \<Rightarrow> bool" where
  "is_EndElement ev = (case ev of EndElement nm \<Rightarrow> True | _ \<Rightarrow> False)"

definition char_data :: "xml_event \<Rightarrow> string" where
  "char_data ev =
     (case ev of
        CharacterData s \<Rightarrow> (case s of [] \<Rightarrow> [] | c # _ \<Rightarrow> if c = CHR 0x00 then [] else s)
      | _ \<Rightarrow> [])"

definition pending_text :: "xml_event list \<Rightarrow> string" where
  "pending_text evs =
     concat (map char_data (rev (takeWhile (\<lambda>ev. \<not> is_EndElement ev) (rev evs))))"

text \<open>
  The pair emitted by call number \<open>i\<close>: an end tag whose element is enclosed by a
  \<open>property\<close> element emits the element name, as reported, with the character data
  reported since the previous end tag, trimmed of blanks, tabs, line feeds and carriage
  returns. \<open>emitted\<close> lists the pairs of all calls in document order.
\<close>

definition emitted_at :: "xml_event list \<Rightarrow> nat \<Rightarrow> (string \<times> string) list" where
  "emitted_at evs i =
     (case evs ! i of
        EndElement nm \<Rightarrow>
          (case enclosing (open_elements (take i evs)) of
             None \<Rightarrow> []
           | Some p \<Rightarrow>
               if is_property p
               then [(nm, trimstring (pending_text (take i evs))
                            [CHR '' '', CHR 0x09, CHR 0x0A, CHR 0x0D])]
               else [])
      | _ \<Rightarrow> [])"

definition emitted :: "xml_event list \<Rightarrow> (string \<times> string) list" where
  "emitted evs = concat (map (emitted_at evs) [0..<length evs])"

text \<open>No end tag arrives while no element is open.\<close>

definition never_underflows :: "xml_event list \<Rightarrow> bool" where
  "never_underflows evs =
     (\<forall>i < length evs. is_EndElement (evs ! i) \<longrightarrow> open_elements (take i evs) \<noteq> [])"

section \<open>The notification receiver\<close>

text \<open>
  The C library's \<open>sscanf(str, "%d%1c", &eventKey, cb)\<close> on the characters of
  \<open>c_str()\<close>: \<open>Some v\<close> when the call returns 1 having stored \<open>v\<close> in the
  \<open>int eventKey\<close>, that is when the string is optional white space, an optional sign
  and decimal digits up to its end; \<open>None\<close> for every other return value.

  The value stored is that of the C library on the platform of the source (\<open>long\<close> of
  64 bits, \<open>int\<close> of 32 bits): the digits are read as \<open>strtol\<close> reads them, into a
  \<open>long\<close>, which is the signed number they denote, or \<open>LONG_MAX\<close> or \<open>LONG_MIN\<close>
  when that number lies beyond them; the \<open>long\<close> is then converted to \<open>int\<close>, which
  keeps its low 32 bits as a two's complement number. So \<open>4294967296\<close> is stored as 0
  and \<open>2147483648\<close> as \<open>INT_MIN\<close>.
\<close>

definition isspace :: "char \<Rightarrow> bool" where
  "isspace c = (c \<in> set [CHR '' '', CHR 0x09, CHR 0x0A, CHR 0x0B, CHR 0x0C, CHR 0x0D])"

definition isdigit :: "char \<Rightarrow> bool" where
  "isdigit c = (c \<in> set ''0123456789'')"

definition c_str :: "string \<Rightarrow> string" where
  "c_str s = takeWhile (\<lambda>c. c \<noteq> CHR 0x00) s"

text \<open>The natural number a string of decimal digits denotes.\<close>

definition decimal_number :: "string \<Rightarrow> int" where
  "decimal_number ds = foldl (\<lambda>v c. 10 * v + (int (of_char c) - 48)) 0 ds"

definition LONG_MAX :: int where
  "LONG_MAX = 2 ^ 63 - 1"

definition LONG_MIN :: int where
  "LONG_MIN = - (2 ^ 63)"

text \<open>The \<open>long\<close> that \<open>strtol\<close> yields for a sign and digits: it saturates.\<close>

definition strtol_long :: "bool \<Rightarrow> string \<Rightarrow> int" where
  "strtol_long neg ds =
     (let v = (if neg then - decimal_number ds else decimal_number ds)
      in if LONG_MAX < v then LONG_MAX else if v < LONG_MIN then LONG_MIN else v)"

text \<open>The conversion of a \<open>long\<close> to \<open>int\<close>: the value modulo \<open>2 ^ 32\<close> in the
  range from \<open>- 2 ^ 31\<close> up to \<open>2 ^ 31 - 1\<close>.\<close>

definition long_to_int :: "int \<Rightarrow> int" where
  "long_to_int v = (v + 2 ^ 31) mod 2 ^ 32 - 2 ^ 31"

definition sscanf_d_1c :: "string \<Rightarrow> int option" where
  "sscanf_d_1c str =
     (let s0 = dropWhile isspace (c_str str);
          neg = (case s0 of [] \<Rightarrow> False | c # _ \<Rightarrow> c = CHR ''-'');
          s1 = (case s0 of [] \<Rightarrow> []
                | c # cs \<Rightarrow> if c = CHR ''-'' \<or> c = CHR ''+'' then cs else s0);
          ds = takeWhile isdigit s1
      in if ds = [] \<or> dropWhile isdigit s1 \<noteq> [] then None
         else Some (long_to_int (strtol_long neg ds)))"

text \<open>The steps of \<open>gena_process_notification_event\<close> that can be observed from
  outside, in the order they are taken.\<close>

datatype action =
    HandleLock
  | HandleUnlock
  | SubscribeLock
  | SubscribeUnlock
  | http_SendStatusResponse int
  | callback upcall

text \<open>The header and body checks: the status of the first failing check, or the SID,
  the event key and the property set.\<close>

definition notification_checks ::
  "'t env \<Rightarrow> MHDTransaction \<Rightarrow> int + (string \<times> int \<times> (string \<rightharpoonup> string))" where
  "notification_checks env mhdt =
     (case headers mhdt ''sid'' of
        None \<Rightarrow> Inl HTTP_PRECONDITION_FAILED
      | Some sid \<Rightarrow>
     (case headers mhdt ''seq'' of
        None \<Rightarrow> Inl HTTP_BAD_REQUEST
      | Some seq \<Rightarrow>
     (case sscanf_d_1c seq of
        None \<Rightarrow> Inl HTTP_BAD_REQUEST
      | Some eventKey \<Rightarrow>
     (case headers mhdt ''nt'' of
        None \<Rightarrow> Inl HTTP_BAD_REQUEST
      | Some nt \<Rightarrow>
     (case headers mhdt ''nts'' of
        None \<Rightarrow> Inl HTTP_BAD_REQUEST
      | Some nts \<Rightarrow>
          if nt \<noteq> ''upnp:event'' \<or> nts \<noteq> ''upnp:propchange'' then
            Inl HTTP_PRECONDITION_FAILED
          else if \<not> has_xml_content_type env mhdt \<or> postdata mhdt = [] then
            Inl HTTP_BAD_REQUEST
          else
            (case Parse env (postdata mhdt) of
               None \<Rightarrow> Inl HTTP_BAD_REQUEST
             | Some propset \<Rightarrow> Inr (sid, eventKey, propset)))))))"

text \<open>The end of the function, from "success" on.\<close>

definition notification_deliver ::
  "Handle_Info \<Rightarrow> nat \<Rightarrow> int \<Rightarrow> (string \<rightharpoonup> string) \<Rightarrow> action list" where
  "notification_deliver handle_info i eventKey propset =
     [http_SendStatusResponse HTTP_OK, HandleUnlock,
      callback (Upcall (Callback handle_info) UPNP_EVENT_RECEIVED
                  (Event_arg \<lparr>Sid = SID (ClientSubList handle_info ! i), EventKey = eventKey,
                              ChangedVariables = propset\<rparr>)
                  (Cookie handle_info))]"

text \<open>
  The correlation part, from the first \<open>HandleLock()\<close> on. \<open>s\<close> is the state found
  at the first \<open>HandleLock()\<close>; \<open>other s\<close> is the state found at the second one,
  taken after \<open>SubscribeLock()\<close>.
\<close>

definition notification_correlate ::
  "('t gena_state \<Rightarrow> 't gena_state) \<Rightarrow> 't gena_state \<Rightarrow> string \<Rightarrow> int
   \<Rightarrow> (string \<rightharpoonup> string) \<Rightarrow> action list" where
  "notification_correlate other s sid eventKey propset =
     HandleLock #
     (case GetClientHandleInfo (HandleTable s) of
        None \<Rightarrow> [http_SendStatusResponse HTTP_PRECONDITION_FAILED, HandleUnlock]
      | Some (client_handle, handle_info) \<Rightarrow>
          (case find_if (has_SID sid) (ClientSubList handle_info) of
             Some i \<Rightarrow> notification_deliver handle_info i eventKey propset
           | None \<Rightarrow>
               if eventKey = 0 then
                 [HandleUnlock, SubscribeLock, HandleLock] @
                 (case GetClientHandleInfo (HandleTable (other s)) of
                    None \<Rightarrow>
                      [http_SendStatusResponse HTTP_PRECONDITION_FAILED, SubscribeUnlock,
                       HandleUnlock]
                  | Some (client_handle, handle_info) \<Rightarrow>
                      (case find_if (has_SID sid) (ClientSubList handle_info) of
                         None \<Rightarrow>
                           [http_SendStatusResponse HTTP_PRECONDITION_FAILED, SubscribeUnlock,
                            HandleUnlock]
                       | Some i \<Rightarrow>
                           SubscribeUnlock #
                           notification_deliver handle_info i eventKey propset))
               else [http_SendStatusResponse HTTP_PRECONDITION_FAILED, HandleUnlock]))"

definition gena_process_notification_event ::
  "'t env \<Rightarrow> ('t gena_state \<Rightarrow> 't gena_state) \<Rightarrow> 't gena_state \<Rightarrow> MHDTransaction
   \<Rightarrow> action list" where
  "gena_process_notification_event env other s mhdt =
     (case notification_checks env mhdt of
        Inl status \<Rightarrow> [http_SendStatusResponse status]
      | Inr (sid, eventKey, propset) \<Rightarrow> notification_correlate other s sid eventKey propset)"


section \<open>A test double for the collaborators\<close>

text \<open>
  A concrete environment after the end-to-end scenarios of the specification: every
  URL parses, the local interface is 10.0.0.2, the transport gives the fixed \<open>answer\<close>,
  the timer thread keeps its jobs in a list (event id, delay, job) and \<open>schedule\<close>
  returns \<open>sched\<close>, failing without a job when that is not success. The TIMEOUT
  values and the one document it knows are those of the scenarios.
\<close>

type_synonym timer_jobs = "(int \<times> int \<times> upnp_timeout) list"

definition stub_timeout_header_value :: "(string \<rightharpoonup> string) \<Rightarrow> int \<Rightarrow> bool \<times> int" where
  "stub_timeout_header_value hdrs t =
     (if hdrs ''timeout'' = Some ''Second-1800'' then (True, 1800)
      else if hdrs ''timeout'' = Some ''Second-infinite'' then (True, - 1)
      else (False, t))"

definition stub_schedule ::
  "upnp_code \<Rightarrow> timer_jobs \<Rightarrow> int \<Rightarrow> upnp_timeout \<Rightarrow> upnp_code \<times> int \<times> timer_jobs" where
  "stub_schedule sched tt delay job =
     (if sched = UPNP_E_SUCCESS
      then (UPNP_E_SUCCESS, int (length tt) + 1, tt @ [(int (length tt) + 1, delay, job)])
      else (sched, 0, tt))"

text \<open>The calls the base parser makes for the document of the scenarios,
  \<open><e:propertyset><e:property><Foo>1</Foo></e:property></e:propertyset>\<close>.\<close>

definition scenario_calls :: "xml_event list" where
  "scenario_calls =
     [StartElement ''e:propertyset'', StartElement ''e:property'', StartElement ''Foo'',
      CharacterData ''1'', EndElement ''Foo'', EndElement ''e:property'',
      EndElement ''e:propertyset'']"

definition stub_tokens :: "string \<Rightarrow> xml_event list \<times> bool" where
  "stub_tokens body =
     (if body = ''<e:propertyset><e:property><Foo>1</Foo></e:property></e:propertyset>''
      then (scenario_calls, True)
      else ([], False))"

definition stub_env ::
  "CURLcode \<times> int \<times> (string \<rightharpoonup> string) \<Rightarrow> upnp_code \<Rightarrow> int \<Rightarrow> timer_jobs env" where
  "stub_env answer sched auto_renew =
     \<lparr>CP_MINIMUM_SUBSCRIPTION_TIME = 15, AUTO_RENEW_TIME = auto_renew, UPNP_INFINITE = - 1,
      NAME_SIZE = 256, LOCAL_PORT_V4 = 49152, LOCAL_PORT_V6 = 49152,
      get_sdk_client_info = ''npupnp'',
      http_FixStrUrl =
        (\<lambda>u. (UPNP_E_SUCCESS,
              \<lparr>urlstr = u, IPaddress = \<lparr>family = IPV4, straddr = ''10.0.0.5''\<rparr>\<rparr>)),
      interfaceForAddress = (\<lambda>a. Some \<lparr>family = IPV4, straddr = ''10.0.0.2''\<rparr>),
      curl_easy_perform = (\<lambda>req. answer),
      timeout_header_value = stub_timeout_header_value,
      TimerThread_schedule = stub_schedule sched,
      TimerThread_remove = (\<lambda>tt eventId. filter (\<lambda>j. fst j \<noteq> eventId) tt),
      has_xml_content_type = (\<lambda>mhdt. headers mhdt ''content-type'' = Some ''text/xml''),
      xml_tokens = stub_tokens\<rparr>"

definition answer_200 :: "string \<Rightarrow> CURLcode \<times> int \<times> (string \<rightharpoonup> string)" where
  "answer_200 tmo = (CURLE_OK, 200, [''sid'' \<mapsto> ''uuid:abcd'', ''timeout'' \<mapsto> tmo])"

definition answer_500 :: "CURLcode \<times> int \<times> (string \<rightharpoonup> string)" where
  "answer_500 = (CURLE_OK, 500, Map.empty)"

definition answer_no_connection :: "CURLcode \<times> int \<times> (string \<rightharpoonup> string)" where
  "answer_no_connection = (CURLE_ERROR 7, 0, Map.empty)"

text \<open>The publisher of the scenarios, a client with handle 1 that has no subscription,
  the same client holding the subscription \<open>uuid:abcd\<close> with its renewal timer
  pending, and another thread unregistering the client.\<close>

definition publisher :: string where
  "publisher = ''http://10.0.0.5:49152/svc/evt''"

definition client_idle :: Handle_Info where
  "client_idle = \<lparr>HType = HND_CLIENT, Callback = 1, Cookie = 7, ClientSubList = []\<rparr>"

definition state_idle :: "timer_jobs gena_state" where
  "state_idle = \<lparr>HandleTable = [None, Some client_idle], gTimerThread = []\<rparr>"

definition renewal_job :: upnp_timeout where
  "renewal_job =
     \<lparr>handle = 1,
      Event = \<lparr>Upnp_Event_Subscribe.Sid = ''uuid:abcd'', ErrCode = UPNP_E_SUCCESS,
               PublisherUrl = publisher, TimeOut = 1800\<rparr>\<rparr>"

definition client_subscribed :: Handle_Info where
  "client_subscribed =
     \<lparr>HType = HND_CLIENT, Callback = 1, Cookie = 7,
      ClientSubList = [\<lparr>renewEventId = 1, SID = ''uuid:abcd'', eventURL = publisher\<rparr>]\<rparr>"

definition state_subscribed :: "timer_jobs gena_state" where
  "state_subscribed =
     \<lparr>HandleTable = [None, Some client_subscribed], gTimerThread = [(1, 1790, renewal_job)]\<rparr>"

text \<open>The client holding two subscriptions, \<open>uuid:wxyz\<close> and behind it
  \<open>uuid:abcd\<close>, and a publisher that answers a renewal with the new SID
  \<open>uuid:efgh\<close>.\<close>

definition client_two :: Handle_Info where
  "client_two =
     \<lparr>HType = HND_CLIENT, Callback = 1, Cookie = 7,
      ClientSubList = [\<lparr>renewEventId = 2, SID = ''uuid:wxyz'', eventURL = publisher\<rparr>,
                       \<lparr>renewEventId = 1, SID = ''uuid:abcd'', eventURL = publisher\<rparr>]\<rparr>"

definition state_two :: "timer_jobs gena_state" where
  "state_two =
     \<lparr>HandleTable = [None, Some client_two], gTimerThread = [(1, 1790, renewal_job)]\<rparr>"

definition answer_rotated :: "CURLcode \<times> int \<times> (string \<rightharpoonup> string)" where
  "answer_rotated = (CURLE_OK, 200, [''sid'' \<mapsto> ''uuid:efgh'', ''timeout'' \<mapsto> ''Second-1800''])"

definition unregistered :: "timer_jobs gena_state \<Rightarrow> timer_jobs gena_state" where
  "unregistered s = s\<lparr>HandleTable := [None, None]\<rparr>"

definition undisturbed :: "timer_jobs gena_state \<Rightarrow> timer_jobs gena_state" where
  "undisturbed s = s"

text \<open>A NOTIFY for the subscription \<open>uuid:abcd\<close> with the given SEQ header, carrying
  the document of the scenarios, and the in-flight subscribe completing while the
  receiver waits for the subscribe lock.\<close>

definition notify :: "string \<Rightarrow> MHDTransaction" where
  "notify seq =
     \<lparr>headers = [''sid'' \<mapsto> ''uuid:abcd'', ''seq'' \<mapsto> seq, ''nt'' \<mapsto> ''upnp:event'',
                 ''nts'' \<mapsto> ''upnp:propchange'', ''content-type'' \<mapsto> ''text/xml''],
      postdata = ''<e:propertyset><e:property><Foo>1</Foo></e:property></e:propertyset>''\<rparr>"

definition subscribe_completes :: "timer_jobs gena_state \<Rightarrow> timer_jobs gena_state" where
  "subscribe_completes s = state_subscribed"

text \<open>A transaction without any header and with an empty body.\<close>

definition no_headers :: MHDTransaction where
  "no_headers = \<lparr>headers = Map.empty, postdata = []\<rparr>"

text \<open>
  Parser calls for two more documents: one whose variable
  \<open>Foo\<close> occurs twice, under \<open>e:property\<close> and under \<open>e:Property\<close>, with white
  space around and its text in two chunks; and one whose variable element carries a
  namespace prefix.
\<close>

definition repeated_calls :: "xml_event list" where
  "repeated_calls =
     [StartElement ''e:propertyset'', CharacterData [CHR 0x0A, CHR '' ''],
      StartElement ''e:property'', StartElement ''Foo'',
      CharacterData '' 1'', CharacterData ''0 '', EndElement ''Foo'',
      EndElement ''e:property'',
      StartElement ''e:Property'', StartElement ''Foo'', CharacterData ''2'',
      EndElement ''Foo'', EndElement ''e:Property'', EndElement ''e:propertyset'']"

definition prefixed_calls :: "xml_event list" where
  "prefixed_calls =
     [StartElement ''e:propertyset'', StartElement ''e:property'', StartElement ''e:Foo'',
      CharacterData ''1'', EndElement ''e:Foo'', EndElement ''e:property'',
      EndElement ''e:propertyset'']"

text \<open>A request header line with the name TIMEOUT.\<close>

definition is_TIMEOUT_header :: "string \<Rightarrow> bool" where
  "is_TIMEOUT_header h = (take 9 h = ''TIMEOUT: '')"


section \<open>The transport adapter: return codes and the TIMEOUT header\<close>

lemma subscribe_perform_performed: "performed (subscribe_perform env t req) = [req]"
  by (simp add: subscribe_perform_def split: prod.splits option.splits)

lemma gena_subscribe_performed:
  assumes "performed (gena_subscribe env url timeout renewal_sid) = [req]"
  shows "gena_subscribe env url timeout renewal_sid =
           subscribe_perform env
             (case timeout of None \<Rightarrow> CP_MINIMUM_SUBSCRIPTION_TIME env | Some v \<Rightarrow> v) req"
  using assms
  by (auto simp: gena_subscribe_def Let_def subscribe_perform_performed
           split: prod.splits option.splits if_splits)

lemma subscribe_perform_outcomes:
  assumes "curl_easy_perform env req = (curlcode, http_status, http_headers)"
  shows "(curlcode \<noteq> CURLE_OK \<longrightarrow> code (subscribe_perform env t req) = UPNP_E_SOCKET_CONNECT)
       \<and> (curlcode = CURLE_OK \<and> http_status \<noteq> 200 \<longrightarrow>
            code (subscribe_perform env t req) = UPNP_E_SUBSCRIBE_UNACCEPTED)
       \<and> (curlcode = CURLE_OK \<and> http_status = 200
            \<and> (http_headers ''sid'' = None \<or> http_headers ''timeout'' = None) \<longrightarrow>
            code (subscribe_perform env t req) = UPNP_E_BAD_RESPONSE)
       \<and> (code (subscribe_perform env t req) = UPNP_E_SUCCESS \<longrightarrow>
            curlcode = CURLE_OK \<and> http_status = 200
            \<and> http_headers ''sid'' = Some (sid_out (subscribe_perform env t req))
            \<and> http_headers ''timeout'' \<noteq> None
            \<and> timeout_header_value env http_headers t
               = (True, timeout_out (subscribe_perform env t req)))"
  using assms
  by (auto simp: subscribe_perform_def HTTP_OK_def split: prod.splits option.splits if_splits)

text \<open>
  Claim C4. Whenever \<open>gena_subscribe\<close> performs its request: a transport failure
  (\<open>curl_easy_perform\<close> not returning \<open>CURLE_OK\<close>) gives \<open>UPNP_E_SOCKET_CONNECT\<close>;
  an HTTP status other than 200 gives \<open>UPNP_E_SUBSCRIBE_UNACCEPTED\<close>; a 200 answer
  without a SID or without a TIMEOUT header gives \<open>UPNP_E_BAD_RESPONSE\<close>; and when
  the call succeeds, the SID returned is the one of the answer's SID header and the
  timeout returned is the value \<open>timeout_header_value\<close> read from the answer's headers.
\<close>

theorem gena_subscribe_outcomes:
  assumes "performed (gena_subscribe env url timeout renewal_sid) = [req]"
      and "curl_easy_perform env req = (curlcode, http_status, http_headers)"
  shows "(curlcode \<noteq> CURLE_OK \<longrightarrow>
            code (gena_subscribe env url timeout renewal_sid) = UPNP_E_SOCKET_CONNECT)
       \<and> (curlcode = CURLE_OK \<and> http_status \<noteq> 200 \<longrightarrow>
            code (gena_subscribe env url timeout renewal_sid) = UPNP_E_SUBSCRIBE_UNACCEPTED)
       \<and> (curlcode = CURLE_OK \<and> http_status = 200
            \<and> (http_headers ''sid'' = None \<or> http_headers ''timeout'' = None) \<longrightarrow>
            code (gena_subscribe env url timeout renewal_sid) = UPNP_E_BAD_RESPONSE)
       \<and> (code (gena_subscribe env url timeout renewal_sid) = UPNP_E_SUCCESS \<longrightarrow>
            curlcode = CURLE_OK \<and> http_status = 200
            \<and> http_headers ''sid'' = Some (sid_out (gena_subscribe env url timeout renewal_sid))
            \<and> http_headers ''timeout'' \<noteq> None
            \<and> timeout_header_value env http_headers
                 (case timeout of None \<Rightarrow> CP_MINIMUM_SUBSCRIPTION_TIME env | Some v \<Rightarrow> v)
               = (True, timeout_out (gena_subscribe env url timeout renewal_sid)))"
  unfolding gena_subscribe_performed [OF assms(1)]
  by (rule subscribe_perform_outcomes [OF assms(2)])

lemma dec_1800: "dec_of_int 1800 = ''1800''" "dec_of_int 15 = ''15''" "dec_of_nat 49152 = ''49152''"
  by (simp_all add: dec_of_int_def)

lemma stub_request:
  "performed (gena_subscribe (stub_env answer sched ar) ''http://10.0.0.5:49152/svc/evt'' (Some 1800) [])
     = [\<lparr>CUSTOMREQUEST = ''SUBSCRIBE'', URL = ''http://10.0.0.5:49152/svc/evt'',
         HTTPHEADER = [''CALLBACK: <http://10.0.0.2:49152/>'', ''NT: upnp:event'',
                       ''TIMEOUT: Second-1800'', ''USER-AGENT: npupnp'']\<rparr>]"
  by (simp add: gena_subscribe_def stub_env_def subscribe_perform_performed subscribe_hlist_def
        myCallbackUrl_def timostr_def dec_1800)


lemma stub_code_200:
  "code (gena_subscribe (stub_env (answer_200 ''Second-1800'') sched ar)
           ''http://10.0.0.5:49152/svc/evt'' (Some 1800) []) = UPNP_E_SUCCESS"
  by (simp add: gena_subscribe_def stub_env_def subscribe_perform_def answer_200_def HTTP_OK_def
        stub_timeout_header_value_def)

theorem gena_subscribe_outcomes_witness:
  "code (gena_subscribe (stub_env (answer_200 ''Second-1800'') UPNP_E_SUCCESS 10)
           ''http://10.0.0.5:49152/svc/evt'' (Some 1800) []) = UPNP_E_SUCCESS
   \<and> sid_out (gena_subscribe (stub_env (answer_200 ''Second-1800'') UPNP_E_SUCCESS 10)
           ''http://10.0.0.5:49152/svc/evt'' (Some 1800) []) = ''uuid:abcd''
   \<and> timeout_out (gena_subscribe (stub_env (answer_200 ''Second-1800'') UPNP_E_SUCCESS 10)
           ''http://10.0.0.5:49152/svc/evt'' (Some 1800) []) = 1800
   \<and> code (gena_subscribe (stub_env answer_no_connection UPNP_E_SUCCESS 10)
           ''http://10.0.0.5:49152/svc/evt'' (Some 1800) []) = UPNP_E_SOCKET_CONNECT
   \<and> code (gena_subscribe (stub_env answer_500 UPNP_E_SUCCESS 10)
           ''http://10.0.0.5:49152/svc/evt'' (Some 1800) []) = UPNP_E_SUBSCRIBE_UNACCEPTED
   \<and> code (gena_subscribe (stub_env (CURLE_OK, 200, [''sid'' \<mapsto> ''uuid:abcd'']) UPNP_E_SUCCESS 10)
           ''http://10.0.0.5:49152/svc/evt'' (Some 1800) []) = UPNP_E_BAD_RESPONSE"
proof -
  have a: "curl_easy_perform (stub_env answer UPNP_E_SUCCESS 10) req = answer" for answer req
    by (simp add: stub_env_def)
  note ok = gena_subscribe_outcomes [OF stub_request a [of "answer_200 ''Second-1800''",
              unfolded answer_200_def]]
  note refused = gena_subscribe_outcomes [OF stub_request a [of answer_500, unfolded answer_500_def]]
  note down = gena_subscribe_outcomes [OF stub_request a [of answer_no_connection,
                unfolded answer_no_connection_def]]
  note bad = gena_subscribe_outcomes [OF stub_request a [of "(CURLE_OK, 200, [''sid'' \<mapsto> ''uuid:abcd''])"]]
  have c: "code (gena_subscribe (stub_env (answer_200 ''Second-1800'') UPNP_E_SUCCESS 10)
           ''http://10.0.0.5:49152/svc/evt'' (Some 1800) []) = UPNP_E_SUCCESS"
    by (rule stub_code_200)
  show ?thesis
    using ok refused down bad c
    by (simp add: answer_200_def answer_500_def answer_no_connection_def stub_env_def
          stub_timeout_header_value_def)
qed

lemma is_TIMEOUT_header_simps:
  "is_TIMEOUT_header (''TIMEOUT: Second-'' @ x)"
  "\<not> is_TIMEOUT_header (''CALLBACK: <'' @ x)"
  "\<not> is_TIMEOUT_header ''NT: upnp:event''"
  "\<not> is_TIMEOUT_header (''SID: '' @ x)"
  "\<not> is_TIMEOUT_header (''USER-AGENT: '' @ x)"
  by (simp_all add: is_TIMEOUT_header_def)

lemma subscribe_hlist_TIMEOUT:
  "filter is_TIMEOUT_header (subscribe_hlist env myaddr renewal_sid t) =
     [''TIMEOUT: Second-'' @ timostr env t]"
  unfolding subscribe_hlist_def by (simp add: is_TIMEOUT_header_simps del: append.simps)

text \<open>
  Claim C5. Every SUBSCRIBE request \<open>gena_subscribe\<close> performs carries exactly one
  TIMEOUT header, \<open>TIMEOUT: Second-N\<close>, where \<open>N\<close> is \<open>infinite\<close> for a negative
  requested timeout, \<open>CP_MINIMUM_SUBSCRIPTION_TIME\<close> in decimal for a requested timeout
  from 0 up to that minimum, and the requested timeout in decimal otherwise. The
  requested timeout \<open>t\<close> is the value \<open>*timeout\<close>, or the minimum itself when the
  pointer is null.
\<close>

theorem gena_subscribe_TIMEOUT_header:
  "\<forall>req \<in> set (performed (gena_subscribe env url timeout renewal_sid)).
     \<forall>t. t = (case timeout of None \<Rightarrow> CP_MINIMUM_SUBSCRIPTION_TIME env | Some v \<Rightarrow> v) \<longrightarrow>
       filter is_TIMEOUT_header (HTTPHEADER req) =
         [''TIMEOUT: Second-'' @
            (if t < 0 then ''infinite''
             else if t < CP_MINIMUM_SUBSCRIPTION_TIME env
               then dec_of_int (CP_MINIMUM_SUBSCRIPTION_TIME env)
             else dec_of_int t)]"
  by (simp add: gena_subscribe_def Let_def subscribe_hlist_TIMEOUT subscribe_perform_performed
        timostr_def split: prod.splits option.splits)

lemma stub_request_t:
  "performed (gena_subscribe (stub_env answer sched ar) ''http://10.0.0.5:49152/svc/evt'' (Some t) [])
     = [\<lparr>CUSTOMREQUEST = ''SUBSCRIBE'', URL = ''http://10.0.0.5:49152/svc/evt'',
         HTTPHEADER = subscribe_hlist (stub_env answer sched ar)
                        \<lparr>family = IPV4, straddr = ''10.0.0.2''\<rparr> [] t\<rparr>]"
  by (simp add: gena_subscribe_def stub_env_def subscribe_perform_performed)

theorem gena_subscribe_TIMEOUT_header_witness:
  "(\<exists>req. performed (gena_subscribe (stub_env answer_500 UPNP_E_SUCCESS 10)
             ''http://10.0.0.5:49152/svc/evt'' (Some 1800) []) = [req]
         \<and> filter is_TIMEOUT_header (HTTPHEADER req) = [''TIMEOUT: Second-1800''])
   \<and> (\<exists>req. performed (gena_subscribe (stub_env answer_500 UPNP_E_SUCCESS 10)
             ''http://10.0.0.5:49152/svc/evt'' (Some 7) []) = [req]
         \<and> filter is_TIMEOUT_header (HTTPHEADER req) = [''TIMEOUT: Second-15''])
   \<and> (\<exists>req. performed (gena_subscribe (stub_env answer_500 UPNP_E_SUCCESS 10)
             ''http://10.0.0.5:49152/svc/evt'' (Some (- 1)) []) = [req]
         \<and> filter is_TIMEOUT_header (HTTPHEADER req) = [''TIMEOUT: Second-infinite''])"
proof -
  have m: "CP_MINIMUM_SUBSCRIPTION_TIME (stub_env answer_500 UPNP_E_SUCCESS 10) = 15"
    by (simp add: stub_env_def)
  show ?thesis
    using gena_subscribe_TIMEOUT_header [of "stub_env answer_500 UPNP_E_SUCCESS 10"
            "''http://10.0.0.5:49152/svc/evt''" "Some 1800" "[]"]
          gena_subscribe_TIMEOUT_header [of "stub_env answer_500 UPNP_E_SUCCESS 10"
            "''http://10.0.0.5:49152/svc/evt''" "Some 7" "[]"]
          gena_subscribe_TIMEOUT_header [of "stub_env answer_500 UPNP_E_SUCCESS 10"
            "''http://10.0.0.5:49152/svc/evt''" "Some (- 1)" "[]"]
    by (simp add: stub_request_t m dec_1800)
qed



section \<open>The scheduler and the subscription manager\<close>

lemma find_if_None: "find_if P xs = None \<longleftrightarrow> (\<forall>x \<in> set xs. \<not> P x)"
  by (induction xs) auto

lemma find_if_Some: "find_if P xs = Some i \<Longrightarrow> i < length xs \<and> P (xs ! i)"
  by (induction xs arbitrary: i) (auto split: if_splits)

lemma find_if_remove_if: "find_if P (remove_if P xs) = None"
  by (simp add: find_if_None remove_if_def)

lemma GetHandleInfo_SomeD:
  "GetHandleInfo tbl h = Some hi \<Longrightarrow>
     1 \<le> h \<and> nat h < length tbl \<and> tbl ! nat h = Some hi \<and> HType hi = HND_CLIENT"
  by (auto simp: GetHandleInfo_def split: if_splits option.splits)

lemma GetHandleInfo_put:
  assumes "GetHandleInfo (HandleTable s) h = Some hi0" and "HType hi = HND_CLIENT"
  shows "GetHandleInfo (HandleTable (put_ClientSubList s h hi subs)) h
           = Some (hi\<lparr>ClientSubList := subs\<rparr>)"
proof -
  from GetHandleInfo_SomeD [OF assms(1)]
  have r: "1 \<le> h" "nat h < length (HandleTable s)" by simp_all
  then have "\<not> int (length (HandleTable s)) \<le> h" by linarith
  with r assms(2) show ?thesis
    by (simp add: GetHandleInfo_def put_ClientSubList_def)
qed

lemma gTimerThread_put [simp]:
  "gTimerThread (put_ClientSubList s h hi subs) = gTimerThread s"
  by (simp add: put_ClientSubList_def)

lemma Schedule_INFINITE:
  "ScheduleGenaAutoRenew env tt client_handle (UPNP_INFINITE env) sub = (UPNP_E_SUCCESS, sub, tt)"
  by (simp add: ScheduleGenaAutoRenew_def)

lemma Schedule_failed:
  "ScheduleGenaAutoRenew env tt client_handle t sub = (rc, sub', tt') \<Longrightarrow>
     rc \<noteq> UPNP_E_SUCCESS \<Longrightarrow> sub' = sub"
  by (auto simp: ScheduleGenaAutoRenew_def Let_def split: if_splits prod.splits)

text \<open>
  Claim C9. Called with the infinite sentinel as granted timeout,
  \<open>ScheduleGenaAutoRenew\<close> returns success and leaves the timer thread and the
  subscription (so its \<open>renewEventId\<close>) as they were. In particular, when
  \<open>genaSubscribe\<close> is called with a negative timeout and the publisher grants the
  infinite sentinel, the timer thread at return is as the other threads left it, and
  (the handle still being a client) the call succeeds with the new subscription at the
  front of the list, its \<open>renewEventId\<close> being \<open>-1\<close>.
\<close>

theorem infinite_timeout_no_timer:
  "ScheduleGenaAutoRenew env tt client_handle (UPNP_INFINITE env) sub = (UPNP_E_SUCCESS, sub, tt)
   \<and> (TimeOut_in < 0
        \<and> GetHandleInfo (HandleTable s) client_handle \<noteq> None
        \<and> code (gena_subscribe env url (Some TimeOut_in) []) = UPNP_E_SUCCESS
        \<and> timeout_out (gena_subscribe env url (Some TimeOut_in) []) = UPNP_INFINITE env
      \<longrightarrow> gTimerThread (st (genaSubscribe env other s client_handle url TimeOut_in))
            = gTimerThread (other s)
          \<and> (\<forall>hi. GetHandleInfo (HandleTable (other s)) client_handle = Some hi \<longrightarrow>
                ret (genaSubscribe env other s client_handle url TimeOut_in) = UPNP_E_SUCCESS
                \<and> GetHandleInfo
                     (HandleTable (st (genaSubscribe env other s client_handle url TimeOut_in)))
                     client_handle
                   = Some (hi\<lparr>ClientSubList :=
                                \<lparr>renewEventId = - 1,
                                 SID = sid_out (gena_subscribe env url (Some TimeOut_in) []),
                                 eventURL = url\<rparr> # ClientSubList hi\<rparr>)))"
proof (intro conjI impI allI)
  show "ScheduleGenaAutoRenew env tt client_handle (UPNP_INFINITE env) sub = (UPNP_E_SUCCESS, sub, tt)"
    by (rule Schedule_INFINITE)
next
  assume a: "TimeOut_in < 0
        \<and> GetHandleInfo (HandleTable s) client_handle \<noteq> None
        \<and> code (gena_subscribe env url (Some TimeOut_in) []) = UPNP_E_SUCCESS
        \<and> timeout_out (gena_subscribe env url (Some TimeOut_in) []) = UPNP_INFINITE env"
  then show "gTimerThread (st (genaSubscribe env other s client_handle url TimeOut_in))
            = gTimerThread (other s)"
    by (auto simp: genaSubscribe_def genaSubscribe_locked_def Schedule_INFINITE
             split: option.splits)
  fix hi assume h: "GetHandleInfo (HandleTable (other s)) client_handle = Some hi"
  from a h show "ret (genaSubscribe env other s client_handle url TimeOut_in) = UPNP_E_SUCCESS"
    by (auto simp: genaSubscribe_def genaSubscribe_locked_def Schedule_INFINITE
             split: option.splits)
  from a h GetHandleInfo_SomeD [OF h]
  show "GetHandleInfo
                     (HandleTable (st (genaSubscribe env other s client_handle url TimeOut_in)))
                     client_handle
                   = Some (hi\<lparr>ClientSubList :=
                                \<lparr>renewEventId = - 1,
                                 SID = sid_out (gena_subscribe env url (Some TimeOut_in) []),
                                 eventURL = url\<rparr> # ClientSubList hi\<rparr>)"
    by (auto simp: genaSubscribe_def genaSubscribe_locked_def Schedule_INFINITE
             GetHandleInfo_put split: option.splits)
qed


lemma find_if_has_SID: "find_if (has_SID x) xs = Some i \<Longrightarrow> SID (xs ! i) = x"
  by (drule find_if_Some) (simp add: has_SID_def)

lemma clientCancelRenew_no_timer:
  "renewEventId sub = - 1 \<Longrightarrow> snd (clientCancelRenew env tt (Some sub)) = tt"
  by simp

lemma genaRenewSubscription_found:
  assumes "GetHandleInfo (HandleTable s) h = Some hi0"
      and "find_if (has_SID in_sid) (ClientSubList hi0) = Some i0"
  shows "genaRenewSubscription env other s h in_sid t =
           genaRenewSubscription_locked env
             (other (genaRenewSubscription_unlocked env s h hi0 i0)) h in_sid
             ((ClientSubList hi0 ! i0)\<lparr>renewEventId := - 1\<rparr>)
             (gena_subscribe env (eventURL (ClientSubList hi0 ! i0)) (Some t) in_sid)"
  using assms find_if_has_SID [OF assms(2)]
  by (simp add: genaRenewSubscription_def Let_def)

lemma renew_locked_roundtrip_failed:
  assumes "GetHandleInfo (HandleTable s2) h = Some hi"
      and "code r \<noteq> UPNP_E_SUCCESS"
  shows "ret (genaRenewSubscription_locked env s2 h in_sid sub_copy r) = code r"
    and "GetHandleInfo (HandleTable (st (genaRenewSubscription_locked env s2 h in_sid sub_copy r))) h
           = Some (hi\<lparr>ClientSubList := remove_if (has_SID in_sid) (ClientSubList hi)\<rparr>)"
  using assms GetHandleInfo_SomeD [OF assms(1)]
  by (simp_all add: genaRenewSubscription_locked_def GetHandleInfo_put)

lemma renew_locked_bad_handle:
  assumes "GetHandleInfo (HandleTable s2) h = None"
  shows "ret (genaRenewSubscription_locked env s2 h in_sid sub_copy r) = GENA_E_BAD_HANDLE"
    and "st (genaRenewSubscription_locked env s2 h in_sid sub_copy r) = s2"
  using assms by (simp_all add: genaRenewSubscription_locked_def)

text \<open>
  Claim C3, as amended. Let \<open>genaRenewSubscription\<close> find the subscription and let
  the round trip \<open>gena_subscribe\<close> fail. If the handle is still a client when the
  handle lock is taken again, the error code of the round trip is returned and every
  subscription with the original SID is removed from the client's list; if the handle is
  no longer a client, \<open>GENA_E_BAD_HANDLE\<close> is returned and the state is left as found.
\<close>

theorem renew_roundtrip_failed:
  assumes "GetHandleInfo (HandleTable s) h = Some hi0"
      and "find_if (has_SID in_sid) (ClientSubList hi0) = Some i0"
      and "code (gena_subscribe env (eventURL (ClientSubList hi0 ! i0)) (Some t) in_sid)
             \<noteq> UPNP_E_SUCCESS"
  shows "(\<forall>hi. GetHandleInfo
                  (HandleTable (other (genaRenewSubscription_unlocked env s h hi0 i0))) h = Some hi
            \<longrightarrow> ret (genaRenewSubscription env other s h in_sid t)
                  = code (gena_subscribe env (eventURL (ClientSubList hi0 ! i0)) (Some t) in_sid)
              \<and> GetHandleInfo (HandleTable (st (genaRenewSubscription env other s h in_sid t))) h
                  = Some (hi\<lparr>ClientSubList := remove_if (has_SID in_sid) (ClientSubList hi)\<rparr>)
              \<and> find_if (has_SID in_sid) (remove_if (has_SID in_sid) (ClientSubList hi)) = None)
       \<and> (GetHandleInfo
             (HandleTable (other (genaRenewSubscription_unlocked env s h hi0 i0))) h = None
            \<longrightarrow> ret (genaRenewSubscription env other s h in_sid t) = GENA_E_BAD_HANDLE
              \<and> st (genaRenewSubscription env other s h in_sid t)
                  = other (genaRenewSubscription_unlocked env s h hi0 i0))"
  unfolding genaRenewSubscription_found [OF assms(1,2)]
  using assms(3)
  by (simp add: renew_locked_roundtrip_failed renew_locked_bad_handle find_if_remove_if)

lemma genaUnSubscribe_found:
  assumes "GetHandleInfo (HandleTable s) h = Some hi0"
      and "find_if (has_SID in_sid) (ClientSubList hi0) = Some i0"
  shows "genaUnSubscribe env other s h in_sid =
           (let s1 = other (genaUnSubscribe_unlocked env s (ClientSubList hi0 ! i0));
                sent = snd (gena_unsubscribe env (eventURL (ClientSubList hi0 ! i0)) in_sid)
            in case GetHandleInfo (HandleTable s1) h of
                 None \<Rightarrow> (GENA_E_BAD_HANDLE, s1, sent)
               | Some hi \<Rightarrow>
                   (UPNP_E_SUCCESS,
                    put_ClientSubList s1 h hi (remove_if (has_SID in_sid) (ClientSubList hi)),
                    sent))"
  using assms find_if_has_SID [OF assms(2)]
  by (simp add: genaUnSubscribe_def Let_def split: option.split)

lemma genaUnSubscribe_absent:
  assumes "GetHandleInfo (HandleTable s) h = Some hi"
      and "find_if (has_SID in_sid) (ClientSubList hi) = None"
  shows "genaUnSubscribe env other s h in_sid = (GENA_E_BAD_SID, s, [])"
  using assms by (simp add: genaUnSubscribe_def)

text \<open>
  Claim C6, as amended. Let the client hold a subscription with SID \<open>in_sid\<close>. If the
  handle is still a client when \<open>genaUnSubscribe\<close> takes the handle lock again after
  the UNSUBSCRIBE round trip, then, whatever the environment (so whatever the outcome
  of the round trip), the call returns success, the client's list at return holds no
  subscription with that SID, and a second \<open>genaUnSubscribe\<close> for the same SID on the
  state so reached returns \<open>GENA_E_BAD_SID\<close>. If the handle is no longer a client at
  that point, the first call returns \<open>GENA_E_BAD_HANDLE\<close>.
\<close>

theorem unsubscribe_twice:
  assumes "GetHandleInfo (HandleTable s) h = Some hi0"
      and "find_if (has_SID in_sid) (ClientSubList hi0) = Some i0"
  shows "(\<forall>hi. GetHandleInfo
                  (HandleTable (other (genaUnSubscribe_unlocked env s (ClientSubList hi0 ! i0)))) h
                = Some hi
            \<longrightarrow> fst (genaUnSubscribe env other s h in_sid) = UPNP_E_SUCCESS
              \<and> GetHandleInfo (HandleTable (fst (snd (genaUnSubscribe env other s h in_sid)))) h
                  = Some (hi\<lparr>ClientSubList := remove_if (has_SID in_sid) (ClientSubList hi)\<rparr>)
              \<and> find_if (has_SID in_sid) (remove_if (has_SID in_sid) (ClientSubList hi)) = None
              \<and> fst (genaUnSubscribe env' other'
                        (fst (snd (genaUnSubscribe env other s h in_sid))) h in_sid)
                  = GENA_E_BAD_SID)
       \<and> (GetHandleInfo
             (HandleTable (other (genaUnSubscribe_unlocked env s (ClientSubList hi0 ! i0)))) h = None
            \<longrightarrow> fst (genaUnSubscribe env other s h in_sid) = GENA_E_BAD_HANDLE)"
proof (intro conjI allI impI)
  fix hi
  assume h: "GetHandleInfo
               (HandleTable (other (genaUnSubscribe_unlocked env s (ClientSubList hi0 ! i0)))) h
             = Some hi"
  from GetHandleInfo_SomeD [OF h] have c: "HType hi = HND_CLIENT" by simp
  show 1: "fst (genaUnSubscribe env other s h in_sid) = UPNP_E_SUCCESS"
    using h by (simp add: genaUnSubscribe_found [OF assms] Let_def)
  show 2: "GetHandleInfo (HandleTable (fst (snd (genaUnSubscribe env other s h in_sid)))) h
          = Some (hi\<lparr>ClientSubList := remove_if (has_SID in_sid) (ClientSubList hi)\<rparr>)"
    using h c by (simp add: genaUnSubscribe_found [OF assms] Let_def GetHandleInfo_put)
  show 3: "find_if (has_SID in_sid) (remove_if (has_SID in_sid) (ClientSubList hi)) = None"
    by (rule find_if_remove_if)
  show "fst (genaUnSubscribe env' other'
                        (fst (snd (genaUnSubscribe env other s h in_sid))) h in_sid)
                  = GENA_E_BAD_SID"
    by (simp add: genaUnSubscribe_absent [OF 2] find_if_remove_if)
next
  assume "GetHandleInfo
             (HandleTable (other (genaUnSubscribe_unlocked env s (ClientSubList hi0 ! i0)))) h = None"
  then show "fst (genaUnSubscribe env other s h in_sid) = GENA_E_BAD_HANDLE"
    by (simp add: genaUnSubscribe_found [OF assms] Let_def)
qed

lemma genaSubscribe_client:
  assumes "GetHandleInfo (HandleTable s) h \<noteq> None"
  shows "genaSubscribe env other s h url t =
           genaSubscribe_locked env (other s) h url (gena_subscribe env url (Some t) [])"
  using assms by (auto simp: genaSubscribe_def)

lemma remove_if_update:
  assumes "i < length xs" and "P y"
  shows "remove_if P (xs[i := y]) = remove_if P (take i xs @ drop (Suc i) xs)"
  using assms by (simp add: remove_if_def upd_conv_take_nth_drop)

text \<open>
  Claim C10. In \<open>genaSubscribe\<close>, when the round trip succeeds and the scheduling of
  the renewal timer then fails with code \<open>rc\<close>, the call returns \<open>rc\<close>, \<open>*out_sid\<close>
  holds the SID the publisher granted, and the new subscription stays at the front of
  the client's list with \<open>renewEventId = -1\<close>. In \<open>genaRenewSubscription\<close>, when the
  round trip succeeds, the subscription is still in the list, at position \<open>i\<close>, and the
  scheduling fails with code \<open>rc\<close>, the call returns \<open>rc\<close> and the client's list at
  return is the list found without its entry at position \<open>i\<close> (and without any other
  entry that carries the new SID): the renewed subscription is removed.
\<close>

theorem schedule_failure_subscribe_keeps_renew_removes:
  "(GetHandleInfo (HandleTable s) h \<noteq> None
      \<and> code (gena_subscribe env url (Some t) []) = UPNP_E_SUCCESS
      \<and> GetHandleInfo (HandleTable (other s)) h = Some hi
      \<and> ScheduleGenaAutoRenew env (gTimerThread (other s)) h
           (timeout_out (gena_subscribe env url (Some t) []))
           \<lparr>renewEventId = - 1, SID = sid_out (gena_subscribe env url (Some t) []),
            eventURL = url\<rparr>
         = (rc, sub', tt')
      \<and> rc \<noteq> UPNP_E_SUCCESS
    \<longrightarrow> ret (genaSubscribe env other s h url t) = rc
      \<and> out_sid (genaSubscribe env other s h url t) = sid_out (gena_subscribe env url (Some t) [])
      \<and> GetHandleInfo (HandleTable (st (genaSubscribe env other s h url t))) h
          = Some (hi\<lparr>ClientSubList :=
                       \<lparr>renewEventId = - 1, SID = sid_out (gena_subscribe env url (Some t) []),
                        eventURL = url\<rparr> # ClientSubList hi\<rparr>))
   \<and> (GetHandleInfo (HandleTable s) h = Some hi0
      \<and> find_if (has_SID in_sid) (ClientSubList hi0) = Some i0
      \<and> code (gena_subscribe env (eventURL (ClientSubList hi0 ! i0)) (Some t) in_sid)
          = UPNP_E_SUCCESS
      \<and> GetHandleInfo (HandleTable (other (genaRenewSubscription_unlocked env s h hi0 i0))) h
          = Some hi
      \<and> find_if (has_SID in_sid) (ClientSubList hi) = Some i
      \<and> ScheduleGenaAutoRenew env
           (gTimerThread (other (genaRenewSubscription_unlocked env s h hi0 i0))) h
           (timeout_out (gena_subscribe env (eventURL (ClientSubList hi0 ! i0)) (Some t) in_sid))
           ((ClientSubList hi ! i)
              \<lparr>SID := sid_out (gena_subscribe env (eventURL (ClientSubList hi0 ! i0)) (Some t)
                                 in_sid)\<rparr>)
         = (rc, sub', tt')
      \<and> rc \<noteq> UPNP_E_SUCCESS
    \<longrightarrow> ret (genaRenewSubscription env other s h in_sid t) = rc
      \<and> i < length (ClientSubList hi)
      \<and> GetHandleInfo (HandleTable (st (genaRenewSubscription env other s h in_sid t))) h
          = Some (hi\<lparr>ClientSubList :=
                       remove_if
                         (has_SID (sid_out (gena_subscribe env (eventURL (ClientSubList hi0 ! i0))
                                              (Some t) in_sid)))
                         (take i (ClientSubList hi) @ drop (Suc i) (ClientSubList hi))\<rparr>))"
proof (intro conjI impI; elim conjE)
  assume a: "GetHandleInfo (HandleTable s) h \<noteq> None"
     "code (gena_subscribe env url (Some t) []) = UPNP_E_SUCCESS"
     "GetHandleInfo (HandleTable (other s)) h = Some hi"
     "ScheduleGenaAutoRenew env (gTimerThread (other s)) h
           (timeout_out (gena_subscribe env url (Some t) []))
           \<lparr>renewEventId = - 1, SID = sid_out (gena_subscribe env url (Some t) []),
            eventURL = url\<rparr>
         = (rc, sub', tt')"
     "rc \<noteq> UPNP_E_SUCCESS"
  from Schedule_failed [OF a(4,5)]
  have s: "sub' = \<lparr>renewEventId = - 1, SID = sid_out (gena_subscribe env url (Some t) []),
                   eventURL = url\<rparr>" .
  from GetHandleInfo_SomeD [OF a(3)] have c: "HType hi = HND_CLIENT" by simp
  show "ret (genaSubscribe env other s h url t) = rc"
    using a by (simp add: genaSubscribe_client genaSubscribe_locked_def)
  show "out_sid (genaSubscribe env other s h url t) = sid_out (gena_subscribe env url (Some t) [])"
    using a by (simp add: genaSubscribe_client genaSubscribe_locked_def)
  have g: "GetHandleInfo (HandleTable (other s\<lparr>gTimerThread := tt'\<rparr>)) h = Some hi"
    using a(3) by simp
  show "GetHandleInfo (HandleTable (st (genaSubscribe env other s h url t))) h
          = Some (hi\<lparr>ClientSubList :=
                       \<lparr>renewEventId = - 1, SID = sid_out (gena_subscribe env url (Some t) []),
                        eventURL = url\<rparr> # ClientSubList hi\<rparr>)"
    using a s by (simp add: genaSubscribe_client genaSubscribe_locked_def
                     GetHandleInfo_put [OF g c])
next
  assume a: "GetHandleInfo (HandleTable s) h = Some hi0"
     "find_if (has_SID in_sid) (ClientSubList hi0) = Some i0"
     "code (gena_subscribe env (eventURL (ClientSubList hi0 ! i0)) (Some t) in_sid)
          = UPNP_E_SUCCESS"
     "GetHandleInfo (HandleTable (other (genaRenewSubscription_unlocked env s h hi0 i0))) h
          = Some hi"
     "find_if (has_SID in_sid) (ClientSubList hi) = Some i"
     "ScheduleGenaAutoRenew env
           (gTimerThread (other (genaRenewSubscription_unlocked env s h hi0 i0))) h
           (timeout_out (gena_subscribe env (eventURL (ClientSubList hi0 ! i0)) (Some t) in_sid))
           ((ClientSubList hi ! i)
              \<lparr>SID := sid_out (gena_subscribe env (eventURL (ClientSubList hi0 ! i0)) (Some t)
                                 in_sid)\<rparr>)
         = (rc, sub', tt')"
     "rc \<noteq> UPNP_E_SUCCESS"
  from Schedule_failed [OF a(6,7)]
  have s: "sub' = (ClientSubList hi ! i)
              \<lparr>SID := sid_out (gena_subscribe env (eventURL (ClientSubList hi0 ! i0)) (Some t)
                                 in_sid)\<rparr>" .
  from find_if_Some [OF a(5)] show i: "i < length (ClientSubList hi)" by simp
  from GetHandleInfo_SomeD [OF a(4)] have c: "HType hi = HND_CLIENT" by simp
  have g: "GetHandleInfo
             (HandleTable (other (genaRenewSubscription_unlocked env s h hi0 i0)
                \<lparr>gTimerThread := x\<rparr>)) h = Some hi" for x
    using a(4) by simp
  have r: "remove_if (has_SID (SID sub')) ((ClientSubList hi)[i := sub'])
           = remove_if (has_SID (SID sub'))
               (take i (ClientSubList hi) @ drop (Suc i) (ClientSubList hi))"
    by (rule remove_if_update [OF i]) (simp add: has_SID_def)
  show "ret (genaRenewSubscription env other s h in_sid t) = rc"
    unfolding genaRenewSubscription_found [OF a(1,2)]
    using a by (simp add: genaRenewSubscription_locked_def)
  show "GetHandleInfo (HandleTable (st (genaRenewSubscription env other s h in_sid t))) h
          = Some (hi\<lparr>ClientSubList :=
                       remove_if
                         (has_SID (sid_out (gena_subscribe env (eventURL (ClientSubList hi0 ! i0))
                                              (Some t) in_sid)))
                         (take i (ClientSubList hi) @ drop (Suc i) (ClientSubList hi))\<rparr>)"
    unfolding genaRenewSubscription_found [OF a(1,2)]
    using a(3,4,5,6,7) r
    by (simp add: genaRenewSubscription_locked_def GetHandleInfo_put [OF g c] s)
qed

section \<open>The renewal job, and the scenarios run on the test double\<close>

text \<open>
  Claim C8, as amended. When the renewal job runs with \<open>AUTO_RENEW_TIME\<close> zero, it
  does not renew; if the job's handle is a client when the job takes the handle lock it
  calls the client's callback once, with \<open>UPNP_EVENT_SUBSCRIPTION_EXPIRED\<close> and
  \<open>ErrCode\<close> success, and if the handle is not a client it calls nothing. With
  \<open>AUTO_RENEW_TIME\<close> non-zero it calls \<open>genaRenewSubscription\<close>: on success,
  \<open>GENA_E_BAD_SID\<close> or \<open>GENA_E_BAD_HANDLE\<close> no callback is called; on any other
  code the callback is called once with \<open>UPNP_EVENT_AUTORENEWAL_FAILED\<close>, that code
  in \<open>ErrCode\<close> and the timeout the renewal left, provided the handle is a client when
  the job takes the handle lock, and nothing is called otherwise.
\<close>

theorem renewal_job_callbacks:
  "(AUTO_RENEW_TIME env = 0 \<longrightarrow>
      work env other other' s event =
        ((case GetHandleInfo (HandleTable s) (handle event) of
            None \<Rightarrow> []
          | Some hi \<Rightarrow>
              [Upcall (Callback hi) UPNP_EVENT_SUBSCRIPTION_EXPIRED
                 (Subscribe_arg ((Event event)\<lparr>ErrCode := UPNP_E_SUCCESS\<rparr>)) (Cookie hi)]),
         s))
   \<and> (AUTO_RENEW_TIME env \<noteq> 0 \<longrightarrow>
        (ret (genaRenewSubscription env other s (handle event)
                (Upnp_Event_Subscribe.Sid (Event event)) (TimeOut (Event event)))
           \<in> {UPNP_E_SUCCESS, GENA_E_BAD_SID, GENA_E_BAD_HANDLE}
         \<longrightarrow> fst (work env other other' s event) = [])
      \<and> (ret (genaRenewSubscription env other s (handle event)
                (Upnp_Event_Subscribe.Sid (Event event)) (TimeOut (Event event)))
           \<notin> {UPNP_E_SUCCESS, GENA_E_BAD_SID, GENA_E_BAD_HANDLE}
         \<longrightarrow> fst (work env other other' s event) =
               (case GetHandleInfo
                       (HandleTable
                          (other' (st (genaRenewSubscription env other s (handle event)
                                         (Upnp_Event_Subscribe.Sid (Event event))
                                         (TimeOut (Event event))))))
                       (handle event) of
                  None \<Rightarrow> []
                | Some hi \<Rightarrow>
                    [Upcall (Callback hi) UPNP_EVENT_AUTORENEWAL_FAILED
                       (Subscribe_arg
                          ((Event event)
                             \<lparr>ErrCode :=
                                ret (genaRenewSubscription env other s (handle event)
                                       (Upnp_Event_Subscribe.Sid (Event event))
                                       (TimeOut (Event event))),
                              TimeOut :=
                                TimeOut_out (genaRenewSubscription env other s (handle event)
                                       (Upnp_Event_Subscribe.Sid (Event event))
                                       (TimeOut (Event event)))\<rparr>))
                       (Cookie hi)])))"
  by (auto simp: work_def Let_def work_send_callback_def)

lemma stub_subscribe_200:
  "tmo = ''Second-1800'' \<or> tmo = ''Second-infinite'' \<Longrightarrow>
   code (gena_subscribe (stub_env (answer_200 tmo) sched ar) url (Some t) rsid) = UPNP_E_SUCCESS
   \<and> sid_out (gena_subscribe (stub_env (answer_200 tmo) sched ar) url (Some t) rsid) = ''uuid:abcd''
   \<and> timeout_out (gena_subscribe (stub_env (answer_200 tmo) sched ar) url (Some t) rsid)
       = (if tmo = ''Second-1800'' then 1800 else - 1)"
  by (auto simp: gena_subscribe_def stub_env_def subscribe_perform_def answer_200_def HTTP_OK_def
        stub_timeout_header_value_def)

lemma stub_subscribe_500:
  "code (gena_subscribe (stub_env answer_500 sched ar) url (Some t) rsid)
     = UPNP_E_SUBSCRIBE_UNACCEPTED"
  by (simp add: gena_subscribe_def stub_env_def subscribe_perform_def answer_500_def HTTP_OK_def)

lemma scenario_lookup:
  "GetHandleInfo (HandleTable state_subscribed) 1 = Some client_subscribed"
  "find_if (has_SID ''uuid:abcd'') (ClientSubList client_subscribed) = Some 0"
  "ClientSubList client_subscribed ! 0
     = \<lparr>renewEventId = 1, SID = ''uuid:abcd'', eventURL = publisher\<rparr>"
  "GetHandleInfo (HandleTable state_idle) 1 = Some client_idle"
  "GetHandleInfo (HandleTable (unregistered s)) 1 = None"
  by (simp_all add: GetHandleInfo_def state_subscribed_def client_subscribed_def has_SID_def
        state_idle_def client_idle_def unregistered_def)

lemma scenario_renew_unlocked:
  "genaRenewSubscription_unlocked (stub_env answer sched ar) state_subscribed 1 client_subscribed 0
     = \<lparr>HandleTable =
          [None, Some (client_subscribed\<lparr>ClientSubList :=
                         [\<lparr>renewEventId = - 1, SID = ''uuid:abcd'', eventURL = publisher\<rparr>]\<rparr>)],
        gTimerThread = []\<rparr>"
  by (simp add: genaRenewSubscription_unlocked_def put_ClientSubList_def state_subscribed_def
        client_subscribed_def stub_env_def)

lemma scenario_unsubscribe_unlocked:
  "genaUnSubscribe_unlocked (stub_env answer sched ar) state_subscribed
     \<lparr>renewEventId = 1, SID = ''uuid:abcd'', eventURL = publisher\<rparr>
     = \<lparr>HandleTable = [None, Some client_subscribed], gTimerThread = []\<rparr>"
  by (simp add: genaUnSubscribe_unlocked_def state_subscribed_def stub_env_def)

theorem renew_roundtrip_failed_witness:
  "ret (genaRenewSubscription (stub_env answer_500 UPNP_E_SUCCESS 10) undisturbed
          state_subscribed 1 ''uuid:abcd'' 1800) = UPNP_E_SUBSCRIBE_UNACCEPTED
   \<and> GetHandleInfo
        (HandleTable (st (genaRenewSubscription (stub_env answer_500 UPNP_E_SUCCESS 10)
                            undisturbed state_subscribed 1 ''uuid:abcd'' 1800))) 1
      = Some client_idle
   \<and> ret (genaRenewSubscription (stub_env answer_500 UPNP_E_SUCCESS 10) unregistered
          state_subscribed 1 ''uuid:abcd'' 1800) = GENA_E_BAD_HANDLE"
proof -
  have c: "code (gena_subscribe (stub_env answer_500 UPNP_E_SUCCESS 10)
                   (eventURL (ClientSubList client_subscribed ! 0)) (Some 1800) ''uuid:abcd'')
             \<noteq> UPNP_E_SUCCESS"
    by (simp add: stub_subscribe_500)
  have g: "GetHandleInfo
             (HandleTable (undisturbed (genaRenewSubscription_unlocked
                (stub_env answer_500 UPNP_E_SUCCESS 10) state_subscribed 1 client_subscribed 0))) 1
           = Some (client_subscribed\<lparr>ClientSubList :=
                     [\<lparr>renewEventId = - 1, SID = ''uuid:abcd'', eventURL = publisher\<rparr>]\<rparr>)"
    unfolding scenario_renew_unlocked undisturbed_def
    by (simp add: GetHandleInfo_def client_subscribed_def)
  have u: "GetHandleInfo
             (HandleTable (unregistered (genaRenewSubscription_unlocked
                (stub_env answer_500 UPNP_E_SUCCESS 10) state_subscribed 1 client_subscribed 0))) 1
           = None"
    by (rule scenario_lookup)
  from renew_roundtrip_failed [OF scenario_lookup(1) scenario_lookup(2) c, of undisturbed]
       renew_roundtrip_failed [OF scenario_lookup(1) scenario_lookup(2) c, of unregistered]
       g u
  show ?thesis
    by (simp add: stub_subscribe_500 remove_if_def has_SID_def client_subscribed_def
          client_idle_def)
qed

theorem renew_roundtrip_failed_counterexample:
  "GetHandleInfo (HandleTable state_subscribed) 1 = Some client_subscribed
   \<and> find_if (has_SID ''uuid:abcd'') (ClientSubList client_subscribed) = Some 0
   \<and> code (gena_subscribe (stub_env answer_500 UPNP_E_SUCCESS 10) publisher (Some 1800)
             ''uuid:abcd'') = UPNP_E_SUBSCRIBE_UNACCEPTED
   \<and> ret (genaRenewSubscription (stub_env answer_500 UPNP_E_SUCCESS 10) unregistered
             state_subscribed 1 ''uuid:abcd'' 1800) = GENA_E_BAD_HANDLE"
  by (simp add: scenario_lookup stub_subscribe_500 genaRenewSubscription_def Let_def
        genaRenewSubscription_locked_def)


theorem unsubscribe_twice_witness:
  "fst (genaUnSubscribe (stub_env answer_no_connection UPNP_E_SUCCESS 10) undisturbed
          state_subscribed 1 ''uuid:abcd'') = UPNP_E_SUCCESS
   \<and> GetHandleInfo
        (HandleTable (fst (snd (genaUnSubscribe (stub_env answer_no_connection UPNP_E_SUCCESS 10)
                                  undisturbed state_subscribed 1 ''uuid:abcd'')))) 1
      = Some client_idle
   \<and> fst (genaUnSubscribe (stub_env answer_500 UPNP_E_SUCCESS 10) undisturbed
            (fst (snd (genaUnSubscribe (stub_env answer_no_connection UPNP_E_SUCCESS 10)
                         undisturbed state_subscribed 1 ''uuid:abcd''))) 1 ''uuid:abcd'')
      = GENA_E_BAD_SID
   \<and> fst (genaUnSubscribe (stub_env answer_no_connection UPNP_E_SUCCESS 10) unregistered
            state_subscribed 1 ''uuid:abcd'') = GENA_E_BAD_HANDLE"
proof -
  have g: "GetHandleInfo
             (HandleTable (undisturbed (genaUnSubscribe_unlocked
                (stub_env answer_no_connection UPNP_E_SUCCESS 10) state_subscribed
                (ClientSubList client_subscribed ! 0)))) 1
           = Some client_subscribed"
    unfolding scenario_lookup(3) scenario_unsubscribe_unlocked undisturbed_def
    by (simp add: GetHandleInfo_def client_subscribed_def)
  have u: "GetHandleInfo
             (HandleTable (unregistered (genaUnSubscribe_unlocked
                (stub_env answer_no_connection UPNP_E_SUCCESS 10) state_subscribed
                (ClientSubList client_subscribed ! 0)))) 1
           = None"
    by (rule scenario_lookup)
  from unsubscribe_twice [OF scenario_lookup(1) scenario_lookup(2), of undisturbed
         "stub_env answer_no_connection UPNP_E_SUCCESS 10" "stub_env answer_500 UPNP_E_SUCCESS 10"
         undisturbed]
       unsubscribe_twice [OF scenario_lookup(1) scenario_lookup(2), of unregistered
         "stub_env answer_no_connection UPNP_E_SUCCESS 10" "stub_env answer_500 UPNP_E_SUCCESS 10"
         undisturbed]
       g u
  show ?thesis
    by (simp add: remove_if_def has_SID_def client_subscribed_def client_idle_def)
qed

theorem unsubscribe_twice_counterexample:
  "GetHandleInfo (HandleTable state_subscribed) 1 = Some client_subscribed
   \<and> find_if (has_SID ''uuid:abcd'') (ClientSubList client_subscribed) = Some 0
   \<and> fst (genaUnSubscribe (stub_env answer_no_connection UPNP_E_SUCCESS 10) unregistered
            state_subscribed 1 ''uuid:abcd'') = GENA_E_BAD_HANDLE"
  by (simp add: scenario_lookup genaUnSubscribe_def Let_def)

lemma scenario_renew_500:
  "ret (genaRenewSubscription (stub_env answer_500 sched ar) undisturbed state_subscribed 1
          ''uuid:abcd'' 1800) = UPNP_E_SUBSCRIBE_UNACCEPTED"
  "TimeOut_out (genaRenewSubscription (stub_env answer_500 sched ar) undisturbed state_subscribed 1
          ''uuid:abcd'' 1800) = 1800"
  "st (genaRenewSubscription (stub_env answer_500 sched ar) undisturbed state_subscribed 1
          ''uuid:abcd'' 1800) = \<lparr>HandleTable = [None, Some client_idle], gTimerThread = []\<rparr>"
proof -
  have g: "GetHandleInfo
             (HandleTable (undisturbed (genaRenewSubscription_unlocked
                (stub_env answer_500 sched ar) state_subscribed 1 client_subscribed 0))) 1
           = Some (client_subscribed\<lparr>ClientSubList :=
                     [\<lparr>renewEventId = - 1, SID = ''uuid:abcd'', eventURL = publisher\<rparr>]\<rparr>)"
    unfolding scenario_renew_unlocked undisturbed_def
    by (simp add: GetHandleInfo_def client_subscribed_def)
  have t: "timeout_out (gena_subscribe (stub_env answer_500 sched ar) url (Some 1800) rsid) = 1800"
    for url rsid
    by (simp add: gena_subscribe_def stub_env_def subscribe_perform_def answer_500_def HTTP_OK_def)
  note f = genaRenewSubscription_found [OF scenario_lookup(1) scenario_lookup(2)]
  show "ret (genaRenewSubscription (stub_env answer_500 sched ar) undisturbed state_subscribed 1
          ''uuid:abcd'' 1800) = UPNP_E_SUBSCRIBE_UNACCEPTED"
    unfolding f using g by (simp add: genaRenewSubscription_locked_def stub_subscribe_500)
  show "TimeOut_out (genaRenewSubscription (stub_env answer_500 sched ar) undisturbed
          state_subscribed 1 ''uuid:abcd'' 1800) = 1800"
    unfolding f using g by (simp add: genaRenewSubscription_locked_def stub_subscribe_500 t)
  show "st (genaRenewSubscription (stub_env answer_500 sched ar) undisturbed state_subscribed 1
          ''uuid:abcd'' 1800) = \<lparr>HandleTable = [None, Some client_idle], gTimerThread = []\<rparr>"
    unfolding f scenario_renew_unlocked undisturbed_def
    by (simp add: genaRenewSubscription_locked_def stub_subscribe_500 GetHandleInfo_def
          put_ClientSubList_def remove_if_def has_SID_def client_subscribed_def client_idle_def)
qed

lemma scenario_renew_bad_sid:
  "ret (genaRenewSubscription env other state_idle 1 ''uuid:abcd'' 1800) = GENA_E_BAD_SID"
  by (simp add: genaRenewSubscription_def scenario_lookup client_idle_def)

theorem renewal_job_callbacks_witness:
  "work (stub_env answer_500 UPNP_E_SUCCESS 0) undisturbed undisturbed state_subscribed renewal_job
     = ([Upcall 1 UPNP_EVENT_SUBSCRIPTION_EXPIRED (Subscribe_arg (Event renewal_job)) 7],
        state_subscribed)
   \<and> fst (work (stub_env answer_500 UPNP_E_SUCCESS 0) undisturbed undisturbed
             (unregistered state_subscribed) renewal_job) = []
   \<and> fst (work (stub_env answer_500 UPNP_E_SUCCESS 10) undisturbed undisturbed state_subscribed
             renewal_job)
      = [Upcall 1 UPNP_EVENT_AUTORENEWAL_FAILED
           (Subscribe_arg ((Event renewal_job)\<lparr>ErrCode := UPNP_E_SUBSCRIBE_UNACCEPTED\<rparr>)) 7]
   \<and> fst (work (stub_env answer_500 UPNP_E_SUCCESS 10) undisturbed unregistered state_subscribed
             renewal_job) = []
   \<and> fst (work (stub_env answer_500 UPNP_E_SUCCESS 10) undisturbed undisturbed state_idle
             renewal_job) = []"
proof -
  have z: "AUTO_RENEW_TIME (stub_env answer_500 UPNP_E_SUCCESS 0) = 0"
          "AUTO_RENEW_TIME (stub_env answer_500 UPNP_E_SUCCESS 10) \<noteq> 0"
    by (simp_all add: stub_env_def)
  have j: "handle renewal_job = 1" "Upnp_Event_Subscribe.Sid (Event renewal_job) = ''uuid:abcd''"
          "TimeOut (Event renewal_job) = 1800"
          "(Event renewal_job)\<lparr>ErrCode := UPNP_E_SUCCESS\<rparr> = Event renewal_job"
          "(Event renewal_job)\<lparr>TimeOut := 1800\<rparr> = Event renewal_job"
    by (simp_all add: renewal_job_def)
  have c: "Callback client_subscribed = 1" "Cookie client_subscribed = 7"
          "Callback client_idle = 1" "Cookie client_idle = 7"
    by (simp_all add: client_subscribed_def client_idle_def)
  have i: "GetHandleInfo [None, Some client_idle] 1 = Some client_idle"
    by (simp add: GetHandleInfo_def client_idle_def)
  from renewal_job_callbacks [of "stub_env answer_500 UPNP_E_SUCCESS 0" undisturbed undisturbed
         state_subscribed renewal_job]
       renewal_job_callbacks [of "stub_env answer_500 UPNP_E_SUCCESS 0" undisturbed undisturbed
         "unregistered state_subscribed" renewal_job]
       renewal_job_callbacks [of "stub_env answer_500 UPNP_E_SUCCESS 10" undisturbed undisturbed
         state_subscribed renewal_job]
       renewal_job_callbacks [of "stub_env answer_500 UPNP_E_SUCCESS 10" undisturbed unregistered
         state_subscribed renewal_job]
       renewal_job_callbacks [of "stub_env answer_500 UPNP_E_SUCCESS 10" undisturbed undisturbed
         state_idle renewal_job]
  show ?thesis
    by (simp add: z j c i scenario_lookup scenario_renew_500 scenario_renew_bad_sid
          undisturbed_def)
qed

theorem renewal_job_callbacks_counterexample:
  "AUTO_RENEW_TIME (stub_env answer_500 UPNP_E_SUCCESS 0) = 0
   \<and> fst (work (stub_env answer_500 UPNP_E_SUCCESS 0) undisturbed undisturbed
             (unregistered state_subscribed) renewal_job) = []"
  by (simp add: work_def work_send_callback_def scenario_lookup stub_env_def renewal_job_def)


theorem infinite_timeout_no_timer_witness:
  "ret (genaSubscribe (stub_env (answer_200 ''Second-infinite'') UPNP_E_SUCCESS 10) undisturbed
          state_idle 1 publisher (- 1)) = UPNP_E_SUCCESS
   \<and> gTimerThread (st (genaSubscribe (stub_env (answer_200 ''Second-infinite'') UPNP_E_SUCCESS 10)
                          undisturbed state_idle 1 publisher (- 1))) = []
   \<and> GetHandleInfo
        (HandleTable (st (genaSubscribe (stub_env (answer_200 ''Second-infinite'') UPNP_E_SUCCESS 10)
                            undisturbed state_idle 1 publisher (- 1)))) 1
      = Some (client_idle\<lparr>ClientSubList :=
                [\<lparr>renewEventId = - 1, SID = ''uuid:abcd'', eventURL = publisher\<rparr>]\<rparr>)"
proof -
  have h: "(- 1 :: int) < 0
        \<and> GetHandleInfo (HandleTable state_idle) 1 \<noteq> None
        \<and> code (gena_subscribe (stub_env (answer_200 ''Second-infinite'') UPNP_E_SUCCESS 10)
                  publisher (Some (- 1)) []) = UPNP_E_SUCCESS
        \<and> timeout_out (gena_subscribe (stub_env (answer_200 ''Second-infinite'') UPNP_E_SUCCESS 10)
                  publisher (Some (- 1)) [])
           = UPNP_INFINITE (stub_env (answer_200 ''Second-infinite'') UPNP_E_SUCCESS 10)"
    by (simp add: scenario_lookup stub_subscribe_200) (simp add: stub_env_def)
  have g: "GetHandleInfo (HandleTable (undisturbed state_idle)) 1 = Some client_idle"
    by (simp add: undisturbed_def scenario_lookup)
  have t: "gTimerThread (undisturbed state_idle) = []" "ClientSubList client_idle = []"
    by (simp_all add: undisturbed_def state_idle_def client_idle_def)
  from infinite_timeout_no_timer
         [where env = "stub_env (answer_200 ''Second-infinite'') UPNP_E_SUCCESS 10"
            and s = state_idle and other = undisturbed and TimeOut_in = "- 1" and url = publisher
            and client_handle = 1, THEN conjunct2, rule_format, OF h]
  have "gTimerThread (st (genaSubscribe (stub_env (answer_200 ''Second-infinite'') UPNP_E_SUCCESS 10)
                          undisturbed state_idle 1 publisher (- 1))) = gTimerThread (undisturbed state_idle)
        \<and> (\<forall>hi. GetHandleInfo (HandleTable (undisturbed state_idle)) 1 = Some hi \<longrightarrow>
              ret (genaSubscribe (stub_env (answer_200 ''Second-infinite'') UPNP_E_SUCCESS 10)
                     undisturbed state_idle 1 publisher (- 1)) = UPNP_E_SUCCESS
              \<and> GetHandleInfo
                   (HandleTable (st (genaSubscribe
                      (stub_env (answer_200 ''Second-infinite'') UPNP_E_SUCCESS 10)
                      undisturbed state_idle 1 publisher (- 1)))) 1
                 = Some (hi\<lparr>ClientSubList :=
                           \<lparr>renewEventId = - 1,
                            SID = sid_out (gena_subscribe
                                    (stub_env (answer_200 ''Second-infinite'') UPNP_E_SUCCESS 10)
                                    publisher (Some (- 1)) []),
                            eventURL = publisher\<rparr> # ClientSubList hi\<rparr>))" .
  with g t show ?thesis
    by (simp add: stub_subscribe_200)
qed

lemma stub_schedule_failing:
  "ScheduleGenaAutoRenew (stub_env answer (UPNP_E_OTHER (- 104)) 10) tt h 1800 sub
     = (UPNP_E_OTHER (- 104), sub, tt)"
  by (simp add: ScheduleGenaAutoRenew_def stub_env_def stub_schedule_def)

lemma stub_subscribe_rotated:
  "code (gena_subscribe (stub_env answer_rotated sched ar) url (Some t) rsid) = UPNP_E_SUCCESS"
  "sid_out (gena_subscribe (stub_env answer_rotated sched ar) url (Some t) rsid) = ''uuid:efgh''"
  "timeout_out (gena_subscribe (stub_env answer_rotated sched ar) url (Some t) rsid) = 1800"
  by (simp_all add: gena_subscribe_def stub_env_def subscribe_perform_def answer_rotated_def
        HTTP_OK_def stub_timeout_header_value_def)

lemma scenario_two_lookup:
  "GetHandleInfo (HandleTable state_two) 1 = Some client_two"
  "find_if (has_SID ''uuid:abcd'') (ClientSubList client_two) = Some 1"
  "eventURL (ClientSubList client_two ! 1) = publisher"
  by (simp_all add: GetHandleInfo_def state_two_def client_two_def has_SID_def)

lemma scenario_two_unlocked:
  "genaRenewSubscription_unlocked (stub_env answer sched ar) state_two 1 client_two 1
     = \<lparr>HandleTable =
          [None, Some (client_two\<lparr>ClientSubList :=
                         [\<lparr>renewEventId = 2, SID = ''uuid:wxyz'', eventURL = publisher\<rparr>,
                          \<lparr>renewEventId = - 1, SID = ''uuid:abcd'', eventURL = publisher\<rparr>]\<rparr>)],
        gTimerThread = []\<rparr>"
  by (simp add: genaRenewSubscription_unlocked_def put_ClientSubList_def state_two_def
        client_two_def stub_env_def)

theorem schedule_failure_subscribe_keeps_renew_removes_witness:
  "ret (genaSubscribe (stub_env (answer_200 ''Second-1800'') (UPNP_E_OTHER (- 104)) 10)
          undisturbed state_idle 1 publisher 1800) = UPNP_E_OTHER (- 104)
   \<and> out_sid (genaSubscribe (stub_env (answer_200 ''Second-1800'') (UPNP_E_OTHER (- 104)) 10)
          undisturbed state_idle 1 publisher 1800) = ''uuid:abcd''
   \<and> GetHandleInfo
        (HandleTable (st (genaSubscribe
           (stub_env (answer_200 ''Second-1800'') (UPNP_E_OTHER (- 104)) 10)
           undisturbed state_idle 1 publisher 1800))) 1
      = Some (client_idle\<lparr>ClientSubList :=
                [\<lparr>renewEventId = - 1, SID = ''uuid:abcd'', eventURL = publisher\<rparr>]\<rparr>)
   \<and> ret (genaRenewSubscription (stub_env answer_rotated (UPNP_E_OTHER (- 104)) 10)
          undisturbed state_two 1 ''uuid:abcd'' 1800) = UPNP_E_OTHER (- 104)
   \<and> GetHandleInfo
        (HandleTable (st (genaRenewSubscription
           (stub_env answer_rotated (UPNP_E_OTHER (- 104)) 10)
           undisturbed state_two 1 ''uuid:abcd'' 1800))) 1
      = Some (client_two\<lparr>ClientSubList :=
                [\<lparr>renewEventId = 2, SID = ''uuid:wxyz'', eventURL = publisher\<rparr>]\<rparr>)"
proof -
  let ?E = "stub_env (answer_200 ''Second-1800'') (UPNP_E_OTHER (- 104)) 10"
  let ?R = "stub_env answer_rotated (UPNP_E_OTHER (- 104)) 10"
  let ?L = "[\<lparr>renewEventId = 2, SID = ''uuid:wxyz'', eventURL = publisher\<rparr>,
             \<lparr>renewEventId = - 1, SID = ''uuid:abcd'', eventURL = publisher\<rparr>]"
  have s: "code (gena_subscribe ?E url (Some 1800) rsid) = UPNP_E_SUCCESS"
          "sid_out (gena_subscribe ?E url (Some 1800) rsid) = ''uuid:abcd''"
          "timeout_out (gena_subscribe ?E url (Some 1800) rsid) = 1800" for url rsid
    using stub_subscribe_200 [of "''Second-1800''" "UPNP_E_OTHER (- 104)" 10 url 1800 rsid]
    by simp_all
  have g: "GetHandleInfo (HandleTable (undisturbed state_idle)) 1 = Some client_idle"
    by (simp add: undisturbed_def scenario_lookup)
  have g': "GetHandleInfo
             (HandleTable (undisturbed (genaRenewSubscription_unlocked ?R state_two 1
                                          client_two 1))) 1
           = Some (client_two\<lparr>ClientSubList := ?L\<rparr>)"
    unfolding scenario_two_unlocked undisturbed_def
    by (simp add: GetHandleInfo_def client_two_def)
  have t': "gTimerThread (undisturbed (genaRenewSubscription_unlocked ?R state_two 1
                                          client_two 1)) = []"
    unfolding scenario_two_unlocked undisturbed_def by simp
  have f: "find_if (has_SID ''uuid:abcd'') (ClientSubList (client_two\<lparr>ClientSubList := ?L\<rparr>))
           = Some 1"
    by (simp add: has_SID_def)
  have a: "GetHandleInfo (HandleTable state_idle) 1 \<noteq> None
      \<and> code (gena_subscribe ?E publisher (Some 1800) []) = UPNP_E_SUCCESS
      \<and> GetHandleInfo (HandleTable (undisturbed state_idle)) 1 = Some client_idle
      \<and> ScheduleGenaAutoRenew ?E (gTimerThread (undisturbed state_idle)) 1
           (timeout_out (gena_subscribe ?E publisher (Some 1800) []))
           \<lparr>renewEventId = - 1, SID = sid_out (gena_subscribe ?E publisher (Some 1800) []),
            eventURL = publisher\<rparr>
         = (UPNP_E_OTHER (- 104),
            \<lparr>renewEventId = - 1, SID = sid_out (gena_subscribe ?E publisher (Some 1800) []),
             eventURL = publisher\<rparr>,
            gTimerThread (undisturbed state_idle))
      \<and> UPNP_E_OTHER (- 104) \<noteq> UPNP_E_SUCCESS"
    by (simp add: scenario_lookup s g stub_schedule_failing)
  have b: "GetHandleInfo (HandleTable state_two) 1 = Some client_two
      \<and> find_if (has_SID ''uuid:abcd'') (ClientSubList client_two) = Some 1
      \<and> code (gena_subscribe ?R (eventURL (ClientSubList client_two ! 1)) (Some 1800)
                ''uuid:abcd'') = UPNP_E_SUCCESS
      \<and> GetHandleInfo
           (HandleTable (undisturbed (genaRenewSubscription_unlocked ?R state_two 1
                                        client_two 1))) 1
          = Some (client_two\<lparr>ClientSubList := ?L\<rparr>)
      \<and> find_if (has_SID ''uuid:abcd'') (ClientSubList (client_two\<lparr>ClientSubList := ?L\<rparr>))
          = Some 1
      \<and> ScheduleGenaAutoRenew ?R
           (gTimerThread (undisturbed (genaRenewSubscription_unlocked ?R state_two 1
                                         client_two 1))) 1
           (timeout_out (gena_subscribe ?R (eventURL (ClientSubList client_two ! 1))
                           (Some 1800) ''uuid:abcd''))
           ((ClientSubList (client_two\<lparr>ClientSubList := ?L\<rparr>) ! 1)
              \<lparr>SID := sid_out (gena_subscribe ?R (eventURL (ClientSubList client_two ! 1))
                                 (Some 1800) ''uuid:abcd'')\<rparr>)
         = (UPNP_E_OTHER (- 104),
            (ClientSubList (client_two\<lparr>ClientSubList := ?L\<rparr>) ! 1)
              \<lparr>SID := sid_out (gena_subscribe ?R (eventURL (ClientSubList client_two ! 1))
                                 (Some 1800) ''uuid:abcd'')\<rparr>,
            [])
      \<and> UPNP_E_OTHER (- 104) \<noteq> UPNP_E_SUCCESS"
    unfolding g' t' using f
    by (simp add: scenario_two_lookup(1,2) stub_subscribe_rotated stub_schedule_failing)
  note T = schedule_failure_subscribe_keeps_renew_removes
  from T [where env = ?E and s = state_idle and other = undisturbed and h = 1
               and url = publisher and t = 1800, THEN conjunct1, rule_format, OF a]
       T [where env = ?R and s = state_two and other = undisturbed and h = 1
               and t = 1800 and in_sid = "''uuid:abcd''" and ?hi0.0 = client_two
               and ?i0.0 = 1, THEN conjunct2, rule_format, OF b]
  show ?thesis
    by (simp add: s stub_subscribe_rotated client_idle_def client_two_def remove_if_def
          has_SID_def)
qed

section \<open>The notification receiver\<close>

lemma dom_cmp_name_e_property: "dom_cmp_name ''e:property'' ''property'' = 0"
  "dom_cmp_name ''e:propertyset'' ''property'' \<noteq> 0"  "dom_cmp_name ''root'' ''property'' \<noteq> 0"
  by (simp_all add: dom_cmp_name_def local_name_def tolower_ascii_def)

lemma stub_document:
  "parse_events scenario_calls = Some [''Foo'' \<mapsto> ''1'']"
  by (simp add: parse_events_def scenario_calls_def UPnPPropertysetParser_EndElement_def
        UPnPPropertysetParser_CharacterData_def dom_cmp_name_e_property trimstring_def)

lemma sscanf_values: "sscanf_d_1c ''0'' = Some 0" "sscanf_d_1c ''7'' = Some 7"
  "sscanf_d_1c ''-1'' = Some (- 1)"
  by (simp_all add: sscanf_d_1c_def c_str_def isspace_def isdigit_def decimal_number_def
        strtol_long_def long_to_int_def LONG_MAX_def LONG_MIN_def)

lemma sscanf_more: "sscanf_d_1c ''abc'' = None" "sscanf_d_1c ''12x'' = None"
  "sscanf_d_1c [] = None" "sscanf_d_1c '' +42'' = Some 42" "sscanf_d_1c ''-'' = None"
  by code_simp+

lemma Parse_stub:
  "Parse (stub_env answer sched ar)
     ''<e:propertyset><e:property><Foo>1</Foo></e:property></e:propertyset>''
   = Some [''Foo'' \<mapsto> ''1'']"
  by (simp add: Parse_def stub_env_def stub_tokens_def stub_document)

lemma notify_checks:
  "sscanf_d_1c seq = Some k \<Longrightarrow>
   notification_checks (stub_env answer sched ar) (notify seq)
     = Inr (''uuid:abcd'', k, [''Foo'' \<mapsto> ''1''])"
  by (simp add: notification_checks_def notify_def Parse_stub) (simp add: stub_env_def)

lemma GetClientHandleInfo_scenario:
  "GetClientHandleInfo (HandleTable state_idle) = Some (1, client_idle)"
  "GetClientHandleInfo (HandleTable state_subscribed) = Some (1, client_subscribed)"
  "GetClientHandleInfo (HandleTable (unregistered s)) = None"
  by (simp_all add: GetClientHandleInfo_def GetHandleInfo_def state_idle_def client_idle_def
        state_subscribed_def client_subscribed_def unregistered_def)

text \<open>The values stored for digits beyond the range of \<open>int\<close> and of \<open>long\<close>, as the
  C library stores them, and the range of every stored value.\<close>

lemma sscanf_stored:
  "sscanf_d_1c ''4294967296'' = Some 0"
  "sscanf_d_1c ''2147483648'' = Some (- 2147483648)"
  "sscanf_d_1c ''2147483647'' = Some 2147483647"
  "sscanf_d_1c ''-2147483649'' = Some 2147483647"
  "sscanf_d_1c ''9223372036854775808'' = Some (- 1)"
  "sscanf_d_1c ''-9223372036854775809'' = Some 0"
  "sscanf_d_1c ''99999999999999999999999'' = Some (- 1)"
  by code_simp+

lemma long_to_int_range: "- (2 ^ 31) \<le> long_to_int v \<and> long_to_int v < 2 ^ 31"
  unfolding long_to_int_def
  using pos_mod_bound [of "2 ^ 32" "v + 2 ^ 31"] pos_mod_sign [of "2 ^ 32" "v + 2 ^ 31"]
  by simp

lemma long_to_int_id: "- (2 ^ 31) \<le> v \<Longrightarrow> v < 2 ^ 31 \<Longrightarrow> long_to_int v = v"
  unfolding long_to_int_def by (simp add: mod_pos_pos_trivial)

lemma sscanf_d_1c_range:
  "sscanf_d_1c str = Some k \<Longrightarrow> - (2 ^ 31) \<le> k \<and> k < 2 ^ 31"
  using long_to_int_range
  by (auto simp: sscanf_d_1c_def Let_def split: if_splits)

lemma correlate_subscribed:
  "notification_correlate other state_subscribed ''uuid:abcd'' k m
     = [HandleLock, http_SendStatusResponse 200, HandleUnlock,
        callback (Upcall 1 UPNP_EVENT_RECEIVED
                    (Event_arg \<lparr>Sid = ''uuid:abcd'', EventKey = k, ChangedVariables = m\<rparr>) 7)]"
  by (simp add: notification_correlate_def GetClientHandleInfo_scenario scenario_lookup
        notification_deliver_def HTTP_OK_def)
     (simp add: client_subscribed_def)

text \<open>
  Claim C1. Let a NOTIFY pass the header and body checks, let a client be registered,
  and let its list hold no subscription with the SID of the NOTIFY. If the event key is
  0, the receiver releases the handle lock, takes the subscribe lock and the handle lock
  again, and looks once more, in the state \<open>other s\<close> it then finds: if a client with
  a subscription of that SID is found there, it answers 200 and calls that client's
  callback with the event (SID, event key 0, the parsed property set); if no client or
  no such subscription is found there, it answers 412 and calls nothing. If the event
  key is not 0 it answers 412 at once, without a second look, and calls nothing. The
  result lists every lock operation, answer and callback call in order. The event key
  is the \<open>int\<close> that \<open>sscanf\<close> stored for the SEQ header: by \<open>sscanf_stored\<close> a
  SEQ of 4294967296 is stored as 0 and takes the retry, one of 2147483648 is stored as
  \<open>INT_MIN\<close> and does not.
\<close>

theorem unknown_SID_retry:
  assumes "notification_checks env mhdt = Inr (sid, eventKey, propset)"
      and "GetClientHandleInfo (HandleTable s) = Some (client_handle, handle_info)"
      and "find_if (has_SID sid) (ClientSubList handle_info) = None"
  shows "(eventKey = 0 \<longrightarrow>
            (\<forall>client_handle' handle_info' i.
               GetClientHandleInfo (HandleTable (other s)) = Some (client_handle', handle_info')
               \<and> find_if (has_SID sid) (ClientSubList handle_info') = Some i
               \<longrightarrow> gena_process_notification_event env other s mhdt =
                     [HandleLock, HandleUnlock, SubscribeLock, HandleLock, SubscribeUnlock,
                      http_SendStatusResponse 200, HandleUnlock,
                      callback (Upcall (Callback handle_info') UPNP_EVENT_RECEIVED
                                  (Event_arg \<lparr>Sid = sid, EventKey = 0,
                                              ChangedVariables = propset\<rparr>)
                                  (Cookie handle_info'))])
          \<and> ((GetClientHandleInfo (HandleTable (other s)) = None
               \<or> (\<exists>client_handle' handle_info'.
                     GetClientHandleInfo (HandleTable (other s))
                       = Some (client_handle', handle_info')
                     \<and> find_if (has_SID sid) (ClientSubList handle_info') = None))
               \<longrightarrow> gena_process_notification_event env other s mhdt =
                     [HandleLock, HandleUnlock, SubscribeLock, HandleLock,
                      http_SendStatusResponse 412, SubscribeUnlock, HandleUnlock]))
       \<and> (eventKey \<noteq> 0 \<longrightarrow>
            gena_process_notification_event env other s mhdt =
              [HandleLock, http_SendStatusResponse 412, HandleUnlock])"
  using assms
  by (auto simp: gena_process_notification_event_def notification_correlate_def
        notification_deliver_def HTTP_OK_def HTTP_PRECONDITION_FAILED_def
        dest: find_if_has_SID)


theorem unknown_SID_retry_witness:
  "gena_process_notification_event (stub_env answer_500 UPNP_E_SUCCESS 10) subscribe_completes
     state_idle (notify ''0'')
   = [HandleLock, HandleUnlock, SubscribeLock, HandleLock, SubscribeUnlock,
      http_SendStatusResponse 200, HandleUnlock,
      callback (Upcall 1 UPNP_EVENT_RECEIVED
                  (Event_arg \<lparr>Sid = ''uuid:abcd'', EventKey = 0,
                              ChangedVariables = [''Foo'' \<mapsto> ''1'']\<rparr>) 7)]
   \<and> gena_process_notification_event (stub_env answer_500 UPNP_E_SUCCESS 10) undisturbed
       state_idle (notify ''0'')
     = [HandleLock, HandleUnlock, SubscribeLock, HandleLock, http_SendStatusResponse 412,
        SubscribeUnlock, HandleUnlock]
   \<and> gena_process_notification_event (stub_env answer_500 UPNP_E_SUCCESS 10) subscribe_completes
       state_idle (notify ''7'')
     = [HandleLock, http_SendStatusResponse 412, HandleUnlock]
   \<and> gena_process_notification_event (stub_env answer_500 UPNP_E_SUCCESS 10) subscribe_completes
       state_idle (notify ''4294967296'')
     = [HandleLock, HandleUnlock, SubscribeLock, HandleLock, SubscribeUnlock,
        http_SendStatusResponse 200, HandleUnlock,
        callback (Upcall 1 UPNP_EVENT_RECEIVED
                    (Event_arg \<lparr>Sid = ''uuid:abcd'', EventKey = 0,
                                ChangedVariables = [''Foo'' \<mapsto> ''1'']\<rparr>) 7)]
   \<and> gena_process_notification_event (stub_env answer_500 UPNP_E_SUCCESS 10) subscribe_completes
       state_idle (notify ''2147483648'')
     = [HandleLock, http_SendStatusResponse 412, HandleUnlock]"
proof -
  let ?E = "stub_env answer_500 UPNP_E_SUCCESS 10"
  have n: "find_if (has_SID ''uuid:abcd'') (ClientSubList client_idle) = None"
    by (simp add: client_idle_def)
  have c: "Callback client_subscribed = 1" "Cookie client_subscribed = 7"
    by (simp_all add: client_subscribed_def)
  have a: "GetClientHandleInfo (HandleTable (subscribe_completes state_idle))
             = Some (1, client_subscribed)
           \<and> find_if (has_SID ''uuid:abcd'') (ClientSubList client_subscribed) = Some 0"
    by (simp add: subscribe_completes_def GetClientHandleInfo_scenario scenario_lookup)
  have b: "GetClientHandleInfo (HandleTable (undisturbed state_idle)) = None
           \<or> (\<exists>client_handle' handle_info'.
                 GetClientHandleInfo (HandleTable (undisturbed state_idle))
                   = Some (client_handle', handle_info')
                 \<and> find_if (has_SID ''uuid:abcd'') (ClientSubList handle_info') = None)"
    by (simp add: undisturbed_def GetClientHandleInfo_scenario n)
  note T0 = unknown_SID_retry [OF notify_checks [OF sscanf_values(1), of answer_500 UPNP_E_SUCCESS 10]
              GetClientHandleInfo_scenario(1) n]
  note T7 = unknown_SID_retry [OF notify_checks [OF sscanf_values(2), of answer_500 UPNP_E_SUCCESS 10]
              GetClientHandleInfo_scenario(1) n]
  note Tw = unknown_SID_retry [OF notify_checks [OF sscanf_stored(1), of answer_500 UPNP_E_SUCCESS 10]
              GetClientHandleInfo_scenario(1) n]
  note Tm = unknown_SID_retry [OF notify_checks [OF sscanf_stored(2), of answer_500 UPNP_E_SUCCESS 10]
              GetClientHandleInfo_scenario(1) n]
  from T0 [where other = subscribe_completes, THEN conjunct1, rule_format, OF refl,
           THEN conjunct1, rule_format, OF a]
       T0 [where other = undisturbed, THEN conjunct1, rule_format, OF refl, THEN conjunct2,
           rule_format, OF b]
       T7 [where other = subscribe_completes, THEN conjunct2]
       Tw [where other = subscribe_completes, THEN conjunct1, rule_format, OF refl,
           THEN conjunct1, rule_format, OF a]
       Tm [where other = subscribe_completes, THEN conjunct2]
  show ?thesis by (simp add: c)
qed

lemma isdigit_not_sign: "isdigit c \<Longrightarrow> \<not> isspace c \<and> c \<noteq> CHR ''-'' \<and> c \<noteq> CHR ''+''"
  by (auto simp: isdigit_def isspace_def)

lemma sign_not_space: "\<not> isspace CHR ''-''" "\<not> isspace CHR ''+''"
  by (simp_all add: isspace_def)

lemma sscanf_d_1c_accepts:
  "sscanf_d_1c str \<noteq> None \<longleftrightarrow>
     (\<exists>ws sg ds. c_str str = ws @ sg @ ds \<and> (\<forall>c \<in> set ws. isspace c)
        \<and> (sg = [] \<or> sg = ''+'' \<or> sg = ''-'') \<and> ds \<noteq> [] \<and> (\<forall>c \<in> set ds. isdigit c))"
proof
  assume a: "sscanf_d_1c str \<noteq> None"
  define s0 where "s0 = dropWhile isspace (c_str str)"
  define s1 where "s1 = (case s0 of [] \<Rightarrow> [] | c # cs \<Rightarrow> if c = CHR ''-'' \<or> c = CHR ''+'' then cs else s0)"
  have d: "takeWhile isdigit s1 \<noteq> []" "dropWhile isdigit s1 = []"
    using a unfolding sscanf_d_1c_def Let_def s1_def s0_def
    by (simp_all split: if_splits del: dropWhile_eq_Nil_conv)
  then have s1: "s1 \<noteq> []" "\<forall>c \<in> set s1. isdigit c"
    by (auto simp: dropWhile_eq_Nil_conv)
  have "\<exists>sg. s0 = sg @ s1 \<and> (sg = [] \<or> sg = ''+'' \<or> sg = ''-'')"
    using s1(1) by (auto simp: s1_def split: list.splits if_splits)
  then obtain sg where sg: "s0 = sg @ s1" "sg = [] \<or> sg = ''+'' \<or> sg = ''-''" by blast
  have "c_str str = takeWhile isspace (c_str str) @ s0"
    by (simp add: s0_def)
  with sg s1 show "\<exists>ws sg ds. c_str str = ws @ sg @ ds \<and> (\<forall>c \<in> set ws. isspace c)
        \<and> (sg = [] \<or> sg = ''+'' \<or> sg = ''-'') \<and> ds \<noteq> [] \<and> (\<forall>c \<in> set ds. isdigit c)"
    by (metis set_takeWhileD)
next
  assume "\<exists>ws sg ds. c_str str = ws @ sg @ ds \<and> (\<forall>c \<in> set ws. isspace c)
        \<and> (sg = [] \<or> sg = ''+'' \<or> sg = ''-'') \<and> ds \<noteq> [] \<and> (\<forall>c \<in> set ds. isdigit c)"
  then obtain ws sg ds where w: "c_str str = ws @ sg @ ds" "\<forall>c \<in> set ws. isspace c"
      "sg = [] \<or> sg = ''+'' \<or> sg = ''-''" "ds \<noteq> []" "\<forall>c \<in> set ds. isdigit c"
    by blast
  from w(4) obtain d ds' where ds: "ds = d # ds'" by (cases ds) auto
  with w(5) have d: "isdigit d" by simp
  have t: "takeWhile isdigit ds = ds" "dropWhile isdigit ds = []"
    using w(5) by (simp_all add: takeWhile_eq_all_conv)
  have e: "dropWhile isspace (c_str str) = sg @ ds"
    using w(1,2,3) d ds isdigit_not_sign [OF d]
    by (auto simp: dropWhile_append2 sign_not_space)
  have s1: "(case sg @ ds of [] \<Rightarrow> []
             | c # cs \<Rightarrow> if c = CHR ''-'' \<or> c = CHR ''+'' then cs else sg @ ds) = ds"
    using w(3) ds isdigit_not_sign [OF d] by auto
  show "sscanf_d_1c str \<noteq> None"
    unfolding sscanf_d_1c_def Let_def e s1 t using w(4) by simp
qed

text \<open>
  Claim C2, as amended. The receiver applies its checks in this order and answers with
  the status of the first one that fails, doing nothing else: no SID header, 412; no SEQ
  header, or a SEQ header on which \<open>sscanf\<close> with \<open>"%d%1c"\<close> does not return 1,
  400; no NT or no NTS header, 400; NT other than \<open>upnp:event\<close> or NTS other than
  \<open>upnp:propchange\<close>, 412; content type not XML or empty body, 400; XML parse
  failure, 400. When every check passes the receiver goes on to the correlation with
  the SID, the parsed event key and the parsed property set. By
  \<open>sscanf_d_1c_accepts\<close> the SEQ values that pass are optional white space, an optional
  sign and at least one decimal digit up to the end of the string: negative numbers pass.
  The event key handed on is the \<open>int\<close> that \<open>sscanf\<close> stored, which by
  \<open>sscanf_d_1c_range\<close> lies in the 32-bit range whatever the digits.
\<close>

theorem notification_checks_in_order:
  "(headers mhdt ''sid'' = None \<longrightarrow>
      gena_process_notification_event env other s mhdt = [http_SendStatusResponse 412])
   \<and> (\<forall>sid. headers mhdt ''sid'' = Some sid \<longrightarrow>
      (headers mhdt ''seq'' = None \<longrightarrow>
         gena_process_notification_event env other s mhdt = [http_SendStatusResponse 400])
      \<and> (\<forall>seq. headers mhdt ''seq'' = Some seq \<longrightarrow>
         (sscanf_d_1c seq = None \<longrightarrow>
            gena_process_notification_event env other s mhdt = [http_SendStatusResponse 400])
         \<and> (\<forall>eventKey. sscanf_d_1c seq = Some eventKey \<longrightarrow>
            (headers mhdt ''nt'' = None \<or> headers mhdt ''nts'' = None \<longrightarrow>
               gena_process_notification_event env other s mhdt = [http_SendStatusResponse 400])
            \<and> (\<forall>nt nts. headers mhdt ''nt'' = Some nt \<and> headers mhdt ''nts'' = Some nts \<longrightarrow>
               (nt \<noteq> ''upnp:event'' \<or> nts \<noteq> ''upnp:propchange'' \<longrightarrow>
                  gena_process_notification_event env other s mhdt
                    = [http_SendStatusResponse 412])
               \<and> (nt = ''upnp:event'' \<and> nts = ''upnp:propchange'' \<longrightarrow>
                  (\<not> has_xml_content_type env mhdt \<or> postdata mhdt = [] \<longrightarrow>
                     gena_process_notification_event env other s mhdt
                       = [http_SendStatusResponse 400])
                  \<and> (has_xml_content_type env mhdt \<and> postdata mhdt \<noteq> [] \<longrightarrow>
                     (Parse env (postdata mhdt) = None \<longrightarrow>
                        gena_process_notification_event env other s mhdt
                          = [http_SendStatusResponse 400])
                     \<and> (\<forall>propset. Parse env (postdata mhdt) = Some propset \<longrightarrow>
                          gena_process_notification_event env other s mhdt
                            = notification_correlate other s sid eventKey propset)))))))"
  by (auto simp: gena_process_notification_event_def notification_checks_def
        HTTP_BAD_REQUEST_def HTTP_PRECONDITION_FAILED_def split: option.splits)

theorem notification_checks_in_order_counterexample:
  "headers (notify ''-1'') ''seq'' = Some ''-1''
   \<and> gena_process_notification_event (stub_env answer_500 UPNP_E_SUCCESS 10) undisturbed
       state_subscribed (notify ''-1'')
     = [HandleLock, http_SendStatusResponse 200, HandleUnlock,
        callback (Upcall 1 UPNP_EVENT_RECEIVED
                    (Event_arg \<lparr>Sid = ''uuid:abcd'', EventKey = - 1,
                                ChangedVariables = [''Foo'' \<mapsto> ''1'']\<rparr>) 7)]"
  by (simp add: gena_process_notification_event_def notify_checks [OF sscanf_values(3)]
        notification_correlate_def GetClientHandleInfo_scenario scenario_lookup
        notification_deliver_def HTTP_OK_def)
     (simp add: notify_def client_subscribed_def)

theorem notification_checks_in_order_witness:
  "gena_process_notification_event (stub_env answer_500 UPNP_E_SUCCESS 10) undisturbed
     state_subscribed no_headers = [http_SendStatusResponse 412]
   \<and> gena_process_notification_event (stub_env answer_500 UPNP_E_SUCCESS 10) undisturbed
       state_subscribed (notify ''abc'') = [http_SendStatusResponse 400]
   \<and> gena_process_notification_event (stub_env answer_500 UPNP_E_SUCCESS 10) undisturbed
       state_subscribed ((notify ''0'')\<lparr>postdata := []\<rparr>) = [http_SendStatusResponse 400]
   \<and> gena_process_notification_event (stub_env answer_500 UPNP_E_SUCCESS 10) undisturbed
       state_subscribed ((notify ''0'')\<lparr>postdata := ''<e:propertyset>''\<rparr>)
     = [http_SendStatusResponse 400]
   \<and> gena_process_notification_event (stub_env answer_500 UPNP_E_SUCCESS 10) undisturbed
       state_subscribed (notify ''2147483648'')
     = [HandleLock, http_SendStatusResponse 200, HandleUnlock,
        callback (Upcall 1 UPNP_EVENT_RECEIVED
                    (Event_arg \<lparr>Sid = ''uuid:abcd'', EventKey = - 2147483648,
                                ChangedVariables = [''Foo'' \<mapsto> ''1'']\<rparr>) 7)]"
proof -
  let ?E = "stub_env answer_500 UPNP_E_SUCCESS 10"
  have p: "Parse ?E ''<e:propertyset>'' = None"
    by (simp add: Parse_def stub_env_def stub_tokens_def)
  have h: "headers (notify q) ''sid'' = Some ''uuid:abcd''" "headers (notify q) ''seq'' = Some q"
          "headers (notify q) ''nt'' = Some ''upnp:event''"
          "headers (notify q) ''nts'' = Some ''upnp:propchange''"
          "postdata (notify q) \<noteq> []"
    for q by (simp_all add: notify_def)
  have x': "has_xml_content_type ?E ((notify q)\<lparr>postdata := b\<rparr>)"
           "has_xml_content_type ?E (notify q)" for q b
    by (simp_all add: stub_env_def notify_def)
  have d: "Parse ?E (postdata (notify q)) = Some [''Foo'' \<mapsto> ''1'']" for q
    unfolding notify_def by (simp add: Parse_stub)
  from notification_checks_in_order [of no_headers ?E undisturbed state_subscribed]
       notification_checks_in_order [of "notify ''abc''" ?E undisturbed state_subscribed]
       notification_checks_in_order [of "(notify ''0'')\<lparr>postdata := []\<rparr>" ?E undisturbed
         state_subscribed]
       notification_checks_in_order [of "(notify ''0'')\<lparr>postdata := ''<e:propertyset>''\<rparr>" ?E
         undisturbed state_subscribed]
       notification_checks_in_order [of "notify ''2147483648''" ?E undisturbed state_subscribed]
  show ?thesis
    by (simp add: no_headers_def h x' p d sscanf_more sscanf_values sscanf_stored
          correlate_subscribed)
qed



section \<open>The property-set parser against the extraction rule\<close>

lemma dispatch_append:
  "dispatch ps (xs @ ys) = (case dispatch ps xs of None \<Rightarrow> None | Some ps' \<Rightarrow> dispatch ps' ys)"
proof (induction xs arbitrary: ps)
  case Nil
  then show ?case by simp
next
  case (Cons e xs)
  then show ?case by (cases e) (simp_all split: option.splits)
qed

lemma open_elements_snoc: "open_elements (evs @ [e]) = open_step (open_elements evs) e"
  by (simp add: open_elements_def)

lemma pending_text_snoc:
  "pending_text (evs @ [e]) = (if is_EndElement e then [] else pending_text evs @ char_data e)"
  by (simp add: pending_text_def)

lemma emitted_at_append: "i < length xs \<Longrightarrow> emitted_at (xs @ ys) i = emitted_at xs i"
  by (simp add: emitted_at_def nth_append split: xml_event.splits option.splits)

lemma emitted_snoc: "emitted (evs @ [e]) = emitted evs @ emitted_at (evs @ [e]) (length evs)"
proof -
  have h: "map (emitted_at (evs @ [e])) [0..<length evs] = map (emitted_at evs) [0..<length evs]"
    by (rule map_cong) (simp_all add: emitted_at_append)
  show ?thesis by (simp add: emitted_def h)
qed

lemma emitted_at_last:
  "emitted_at (evs @ [e]) (length evs) =
     (case e of
        EndElement nm \<Rightarrow>
          (case enclosing (open_elements evs) of
             None \<Rightarrow> []
           | Some p \<Rightarrow>
               if is_property p
               then [(nm, trimstring (pending_text evs) [CHR '' '', CHR 0x09, CHR 0x0A, CHR 0x0D])]
               else [])
      | _ \<Rightarrow> [])"
  by (simp add: emitted_at_def split: xml_event.splits option.splits)

lemma root_not_property: "dom_cmp_name ''root'' ''property'' \<noteq> 0"
  by (simp add: dom_cmp_name_def local_name_def tolower_ascii_def)

lemma property_lower: "map tolower_ascii ''property'' = ''property''"
  by (simp add: tolower_ascii_def)

lemma dom_cmp_name_property: "dom_cmp_name p ''property'' = 0 \<longleftrightarrow> is_property p"
  unfolding dom_cmp_name_def is_property_def property_lower by simp

lemma EndElement_step:
  assumes "m_path ps \<noteq> []"
  shows "UPnPPropertysetParser_EndElement ps nm =
           Some (ps\<lparr>propdata :=
                      (case enclosing (m_path ps) of
                         None \<Rightarrow> propdata ps
                       | Some p \<Rightarrow>
                           if is_property p
                           then (propdata ps)
                                  (nm \<mapsto> trimstring (m_chardata ps)
                                           [CHR '' '', CHR 0x09, CHR 0x0A, CHR 0x0D])
                           else propdata ps),
                    m_chardata := []\<rparr>)"
proof (cases "length (m_path ps) = 1")
  case True
  then show ?thesis
    using assms
    by (simp add: UPnPPropertysetParser_EndElement_def enclosing_def root_not_property)
next
  case False
  with assms have "\<not> length (m_path ps) < 2"
    by (cases "m_path ps") auto
  with False show ?thesis
    using assms
    by (simp add: UPnPPropertysetParser_EndElement_def enclosing_def dom_cmp_name_property)
qed

lemma CharacterData_step:
  "UPnPPropertysetParser_CharacterData ps s
     = ps\<lparr>m_chardata := m_chardata ps @ char_data (CharacterData s)\<rparr>"
  by (simp add: UPnPPropertysetParser_CharacterData_def char_data_def split: list.splits)

lemma dispatch_invariant:
  "dispatch \<lparr>m_path = [], m_chardata = [], propdata = Map.empty\<rparr> evs = Some ps \<Longrightarrow>
     m_path ps = open_elements evs \<and> m_chardata ps = pending_text evs
     \<and> propdata ps = map_of (rev (emitted evs))"
proof (induction evs arbitrary: ps rule: rev_induct)
  case Nil
  then show ?case
    by (auto simp: open_elements_def pending_text_def emitted_def)
next
  case (snoc e evs)
  from snoc.prems obtain ps0 where
    p0: "dispatch \<lparr>m_path = [], m_chardata = [], propdata = Map.empty\<rparr> evs = Some ps0"
    and p1: "dispatch ps0 [e] = Some ps"
    by (auto simp: dispatch_append split: option.splits)
  from snoc.IH [OF p0] have
    ih: "m_path ps0 = open_elements evs" "m_chardata ps0 = pending_text evs"
        "propdata ps0 = map_of (rev (emitted evs))"
    by simp_all
  show ?case
  proof (cases e)
    case (StartElement nm)
    with p1 ih show ?thesis
      by (auto simp: open_elements_snoc open_step_def pending_text_snoc is_EndElement_def
            char_data_def emitted_snoc emitted_at_last)
  next
    case (CharacterData s)
    with p1 ih show ?thesis
      by (auto simp: CharacterData_step open_elements_snoc open_step_def pending_text_snoc
            is_EndElement_def emitted_snoc emitted_at_last)
  next
    case (EndElement nm)
    with p1 have ne: "m_path ps0 \<noteq> []"
      by (auto simp: UPnPPropertysetParser_EndElement_def split: if_splits)
    from p1 EndElement ih show ?thesis
      by (auto simp: EndElement_step [OF ne] open_elements_snoc open_step_def pending_text_snoc
            is_EndElement_def emitted_snoc emitted_at_last split: option.splits)
  qed
qed

lemma never_underflows_snoc:
  "never_underflows (evs @ [e]) \<longleftrightarrow>
     never_underflows evs \<and> (is_EndElement e \<longrightarrow> open_elements evs \<noteq> [])"
  by (auto simp: never_underflows_def nth_append less_Suc_eq)

lemma dispatch_total:
  "never_underflows evs \<Longrightarrow>
     dispatch \<lparr>m_path = [], m_chardata = [], propdata = Map.empty\<rparr> evs \<noteq> None"
proof (induction evs rule: rev_induct)
  case Nil
  then show ?case by simp
next
  case (snoc e evs)
  from snoc.prems have nu: "never_underflows evs"
    and en: "is_EndElement e \<longrightarrow> open_elements evs \<noteq> []"
    by (simp_all add: never_underflows_snoc)
  from snoc.IH [OF nu] obtain ps0 where
    p0: "dispatch \<lparr>m_path = [], m_chardata = [], propdata = Map.empty\<rparr> evs = Some ps0"
    by auto
  from dispatch_invariant [OF p0] have mp: "m_path ps0 = open_elements evs" by simp
  show ?case
  proof (cases e)
    case (EndElement nm)
    with en mp have ne: "m_path ps0 \<noteq> []" by (simp add: is_EndElement_def)
    show ?thesis
      by (simp add: dispatch_append p0 EndElement EndElement_step [OF ne])
  qed (simp_all add: dispatch_append p0)
qed

lemma map_of_rev_last:
  "map_of (rev xs) k = Some v \<longleftrightarrow>
     (\<exists>i < length xs. xs ! i = (k, v) \<and> (\<forall>j < length xs. i < j \<longrightarrow> fst (xs ! j) \<noteq> k))"
proof (induction xs rule: rev_induct)
  case Nil
  then show ?case by simp
next
  case (snoc x xs)
  show ?case
  proof (cases "fst x = k")
    case True
    have "(\<exists>i < Suc (length xs). (xs @ [x]) ! i = (k, v)
            \<and> (\<forall>j < Suc (length xs). i < j \<longrightarrow> fst ((xs @ [x]) ! j) \<noteq> k))
          \<longleftrightarrow> x = (k, v)"
    proof
      assume "\<exists>i < Suc (length xs). (xs @ [x]) ! i = (k, v)
            \<and> (\<forall>j < Suc (length xs). i < j \<longrightarrow> fst ((xs @ [x]) ! j) \<noteq> k)"
      then obtain i where i: "i < Suc (length xs)" "(xs @ [x]) ! i = (k, v)"
        "\<forall>j < Suc (length xs). i < j \<longrightarrow> fst ((xs @ [x]) ! j) \<noteq> k" by blast
      have "i = length xs"
      proof (rule ccontr)
        assume "i \<noteq> length xs"
        with i(1) have "i < length xs" by simp
        with i(3) [rule_format, of "length xs"] have "fst ((xs @ [x]) ! length xs) \<noteq> k"
          by simp
        with True show False by simp
      qed
      with i(2) show "x = (k, v)" by simp
    next
      assume "x = (k, v)"
      then show "\<exists>i < Suc (length xs). (xs @ [x]) ! i = (k, v)
            \<and> (\<forall>j < Suc (length xs). i < j \<longrightarrow> fst ((xs @ [x]) ! j) \<noteq> k)"
        by (intro exI [of _ "length xs"]) simp
    qed
    with True show ?thesis by (cases x) auto
  next
    case False
    have "(\<exists>i < Suc (length xs). (xs @ [x]) ! i = (k, v)
            \<and> (\<forall>j < Suc (length xs). i < j \<longrightarrow> fst ((xs @ [x]) ! j) \<noteq> k))
          \<longleftrightarrow> (\<exists>i < length xs. xs ! i = (k, v)
                 \<and> (\<forall>j < length xs. i < j \<longrightarrow> fst (xs ! j) \<noteq> k))"
      using False by (auto simp: nth_append less_Suc_eq)
    with False snoc.IH show ?thesis by (cases x) auto
  qed
qed

text \<open>
  Claim C7, as amended. Whenever the parser run on a sequence of calls succeeds, the map
  it has filled is the one the extraction rule gives: a name is mapped to a value exactly
  when that pair is emitted by an end tag and no later end tag emits a pair with the same
  name (the last occurrence wins). A pair is emitted by the end tag of an element whose
  immediate parent has the local name \<open>property\<close>, compared without regard to case and
  to the parent's namespace prefix; its key is the element name as the base parser
  reports it, a namespace prefix of the element included; its value is the character data
  reported since the previous end tag, concatenated and trimmed of blanks, tabs, line
  feeds and carriage returns at both ends. The run succeeds on every sequence of calls in
  which no end tag arrives without an open element, as is the case for a well-formed
  document.
\<close>

theorem propertyset_extraction:
  "(\<forall>propset. parse_events evs = Some propset \<longrightarrow>
      propset = map_of (rev (emitted evs))
      \<and> (\<forall>nm v. propset nm = Some v \<longleftrightarrow>
            (\<exists>i < length (emitted evs). emitted evs ! i = (nm, v)
               \<and> (\<forall>j < length (emitted evs). i < j \<longrightarrow> fst (emitted evs ! j) \<noteq> nm))))
   \<and> (never_underflows evs \<longrightarrow> parse_events evs \<noteq> None)"
proof (intro conjI allI impI)
  fix propset assume p: "parse_events evs = Some propset"
  then show e: "propset = map_of (rev (emitted evs))"
    by (auto simp: parse_events_def dest: dispatch_invariant)
  fix nm v
  show "propset nm = Some v \<longleftrightarrow>
            (\<exists>i < length (emitted evs). emitted evs ! i = (nm, v)
               \<and> (\<forall>j < length (emitted evs). i < j \<longrightarrow> fst (emitted evs ! j) \<noteq> nm))"
    unfolding e by (rule map_of_rev_last)
next
  assume "never_underflows evs"
  then show "parse_events evs \<noteq> None"
    using dispatch_total [of evs] by (simp add: parse_events_def)
qed

lemma calls_values:
  "never_underflows scenario_calls" "never_underflows repeated_calls"
  "emitted scenario_calls = [(''Foo'', ''1'')]"
  "emitted repeated_calls = [(''Foo'', ''10''), (''Foo'', ''2'')]"
  by code_simp+

theorem propertyset_extraction_witness:
  "parse_events scenario_calls = Some [''Foo'' \<mapsto> ''1'']
   \<and> parse_events repeated_calls = Some [''Foo'' \<mapsto> ''2'']"
proof -
  from propertyset_extraction [of scenario_calls] calls_values(1)
  obtain p where p: "parse_events scenario_calls = Some p" by auto
  with propertyset_extraction [of scenario_calls]
  have "p = map_of (rev (emitted scenario_calls))" by blast
  then have 1: "p = [''Foo'' \<mapsto> ''1'']" by (simp add: calls_values)
  from propertyset_extraction [of repeated_calls] calls_values(2)
  obtain q where q: "parse_events repeated_calls = Some q" by auto
  with propertyset_extraction [of repeated_calls]
  have "q = map_of (rev (emitted repeated_calls))" by blast
  then have 2: "q = [''Foo'' \<mapsto> ''2'']" by (simp add: calls_values)
  from p q 1 2 show ?thesis by simp
qed

theorem propertyset_extraction_counterexample:
  "parse_events prefixed_calls = Some [''e:Foo'' \<mapsto> ''1'']
   \<and> local_name ''e:Foo'' = ''Foo''
   \<and> [''e:Foo'' \<mapsto> ''1''] ''Foo'' = (None :: string option)"
  by (simp add: parse_events_def prefixed_calls_def UPnPPropertysetParser_EndElement_def
        UPnPPropertysetParser_CharacterData_def dom_cmp_name_e_property trimstring_def
        local_name_def)

lemma text_before_the_element:
  "parse_events
     [StartElement ''e:propertyset'', StartElement ''e:property'', CharacterData ''x'',
      StartElement ''Foo'', CharacterData ''1'', EndElement ''Foo'', EndElement ''e:property'',
      EndElement ''e:propertyset''] = Some [''Foo'' \<mapsto> ''x1'']"
  by (simp add: parse_events_def UPnPPropertysetParser_EndElement_def
        UPnPPropertysetParser_CharacterData_def dom_cmp_name_e_property trimstring_def)


end
